theory Spec2Isabelle
  imports Complex_Main "HOL-Library.Word"
begin

section \<open>Ephemeris forces of reboundx: a shallow embedding\<close>

text \<open>
  The C source of the ephemeris forces (\<^verbatim>\<open>jpl_work\<close>, the body helpers, \<^verbatim>\<open>jpl_calc\<close>,
  \<^verbatim>\<open>ephem\<close>, \<^verbatim>\<open>ast_ephem\<close>, \<^verbatim>\<open>rebx_ephemeris_forces\<close>) is translated function by function.

  Numbers. A C \<^verbatim>\<open>double\<close> is modelled by a real number: arithmetic is exact, there is no
  rounding and no overflow. Where the source divides by a quantity that can be zero, IEEE
  arithmetic yields an infinity or a NaN and HOL yields 0; theorems that depend on such a
  value carry the hypothesis that the divisor is not zero, and the one comparison of the
  source whose outcome decides control flow on such a value (the convergence test of the
  relativistic iteration) is modelled with the IEEE outcome written out. The speed of light
  is the one quantity for which the specification uses \<open>+\<infinity>\<close>; it has a type of its own.
  An \<^verbatim>\<open>int\<close> is modelled by an integer; where the source computes with \<^verbatim>\<open>int\<close>s (the
  products and sums of \<^verbatim>\<open>jpl_work\<close>) the result is wrapped to 32 bits, elsewhere they are
  only stored, compared and counted. The record number, which the source holds in a
  \<^verbatim>\<open>u_int32_t\<close>, is a 32-bit word.
\<close>

subsection \<open>Errors\<close>

text \<open>
  The ways in which a call does not return: \<^verbatim>\<open>exit(EXIT_FAILURE)\<close>, the dereference of a
  null pointer, a write past the end of a fixed-size array, and the conversion of a
  \<^verbatim>\<open>double\<close> that does not fit the integer type (undefined in C).
\<close>

datatype error = ExitFailure | NullDereference | ArrayIndexOutOfBounds | UndefinedConversion

subsection \<open>Floating-point helpers of the C library\<close>

text \<open>The conversion \<^verbatim>\<open>(int)t\<close> truncates towards zero.\<close>

definition trunc_int :: "real \<Rightarrow> int" where
  "trunc_int r = (if 0 \<le> r then \<lfloor>r\<rfloor> else \<lceil>r\<rceil>)"

text \<open>\<^verbatim>\<open>fmod(a, b)\<close>: the remainder of \<open>a / b\<close> with the sign of \<open>a\<close> (for \<open>b \<noteq> 0\<close>).\<close>

definition fmod :: "real \<Rightarrow> real \<Rightarrow> real" where
  "fmod a b = a - of_int (trunc_int (a / b)) * b"

text \<open>
  \<^verbatim>\<open>(u_int32_t)(a / b)\<close>: defined when the truncated quotient fits 32 bits. A zero divisor
  gives an infinity or a NaN, whose conversion is undefined.
\<close>

definition div_to_u32 :: "real \<Rightarrow> real \<Rightarrow> 32 word option" where
  "div_to_u32 a b =
     (if b = 0 then None
      else if 0 \<le> trunc_int (a / b) \<and> trunc_int (a / b) < 2 ^ 32
           then Some (word_of_int (trunc_int (a / b)))
           else None)"

subsection \<open>Vectors\<close>

type_synonym vec3 = "real \<times> real \<times> real"

text \<open>
  \<^verbatim>\<open>struct mpos_s\<close> (declared in \<^verbatim>\<open>spk.h\<close>; the source repeats it in a comment):
  \<^verbatim>\<open>double u[3]; double v[3]; double jde;\<close>
\<close>

record mpos_s =
  pos_u :: vec3
  pos_v :: vec3
  pos_jde :: real

fun vecpos_off :: "vec3 \<Rightarrow> vec3 \<Rightarrow> real \<Rightarrow> vec3" where
  "vecpos_off (u0, u1, u2) (v0, v1, v2) w = (u0 + v0 * w, u1 + v1 * w, u2 + v2 * w)"

definition vecpos_set :: "vec3 \<Rightarrow> vec3 \<Rightarrow> vec3" where
  "vecpos_set u v = v"

definition vecpos_nul :: "vec3 \<Rightarrow> vec3" where
  "vecpos_nul u = (0, 0, 0)"

fun vecpos_div :: "vec3 \<Rightarrow> real \<Rightarrow> vec3" where
  "vecpos_div (u0, u1, u2) w = (u0 / w, u1 / w, u2 / w)"

text \<open>Component \<open>k\<close> of a three-array, for \<open>k < 3\<close>.\<close>

fun vec_nth :: "vec3 \<Rightarrow> nat \<Rightarrow> real" where
  "vec_nth (u0, u1, u2) k = (if k = 0 then u0 else if k = 1 then u1 else u2)"

text \<open>
  Writing the components that \<^verbatim>\<open>jpl_work\<close> computed through a pointer to a \<^verbatim>\<open>double[3]\<close>:
  component \<open>k\<close> of the array is replaced for each computed component; a fourth component
  would be written past the end of the array.
\<close>

fun vec_store :: "real list \<Rightarrow> vec3 \<Rightarrow> error + vec3" where
  "vec_store [] (u0, u1, u2) = Inr (u0, u1, u2)"
| "vec_store [a] (u0, u1, u2) = Inr (a, u1, u2)"
| "vec_store [a, b] (u0, u1, u2) = Inr (a, b, u2)"
| "vec_store [a, b, c] (u0, u1, u2) = Inr (a, b, c)"
| "vec_store (a # b # c # d # ds) (u0, u1, u2) = Inl ArrayIndexOutOfBounds"

subsection \<open>The Chebyshev evaluator \<^verbatim>\<open>jpl_work\<close>\<close>

text \<open>
  The evaluator is translated once, over an arbitrary arithmetic: the operations on
  \<^verbatim>\<open>double\<close> that it uses (\<^verbatim>\<open>+\<close>, \<^verbatim>\<open>-\<close>, \<^verbatim>\<open>*\<close>, \<^verbatim>\<open>/\<close>, the conversion \<^verbatim>\<open>(double)k\<close> of an
  \<^verbatim>\<open>int\<close>, which also gives the literals \<^verbatim>\<open>0.0\<close>, \<^verbatim>\<open>1.0\<close>, \<^verbatim>\<open>2.0\<close>, \<^verbatim>\<open>86400.0\<close>, the library
  function \<^verbatim>\<open>fmod\<close> and the conversion \<^verbatim>\<open>(int)t\<close>) are the fields of a record, and every
  operation of the source is one application of a field, in the order and with the
  grouping of the C expression (a compiler that fuses a multiplication and an addition
  into one operation is outside this reading). IEEE binary64 with its rounding is one such
  arithmetic and the real numbers are another; what is proved for every arithmetic holds
  for both.
\<close>

record 'a arith =
  d_add :: "'a \<Rightarrow> 'a \<Rightarrow> 'a"
  d_sub :: "'a \<Rightarrow> 'a \<Rightarrow> 'a"
  d_mul :: "'a \<Rightarrow> 'a \<Rightarrow> 'a"
  d_div :: "'a \<Rightarrow> 'a \<Rightarrow> 'a"
  d_of_int :: "int \<Rightarrow> 'a"
  d_fmod :: "'a \<Rightarrow> 'a \<Rightarrow> 'a"
  d_to_int :: "'a \<Rightarrow> int"

text \<open>The arithmetic of the real numbers, in which the rest of the development works.\<close>

definition real_arith :: "real arith" where
  "real_arith = \<lparr>d_add = (+), d_sub = (-), d_mul = (*), d_div = (/), d_of_int = of_int,
                  d_fmod = fmod, d_to_int = trunc_int\<rparr>"

text \<open>
  The arguments \<^verbatim>\<open>ncm\<close>, \<^verbatim>\<open>ncf\<close>, \<^verbatim>\<open>niv\<close> and the locals \<^verbatim>\<open>p\<close>, \<^verbatim>\<open>m\<close>, \<^verbatim>\<open>n\<close>, \<^verbatim>\<open>b\<close> are of type
  \<^verbatim>\<open>int\<close>, 32 bits wide in two's complement. A result of \<^verbatim>\<open>int\<close> arithmetic that does not
  fit (undefined in C) wraps around; so does the value of \<^verbatim>\<open>(int)t\<close>.
\<close>

definition int32 :: "int \<Rightarrow> int" where
  "int32 k = (k + 2 ^ 31) mod 2 ^ 32 - 2 ^ 31"

text \<open>
  The index \<^verbatim>\<open>n+p\<close> of the coefficient that pass \<open>p\<close> of the inner loop reads for component
  \<open>m\<close>, with \<^verbatim>\<open>n = ncf * (m + b * ncm)\<close>.
\<close>

definition coef_index :: "int \<Rightarrow> int \<Rightarrow> int \<Rightarrow> int \<Rightarrow> nat \<Rightarrow> int" where
  "coef_index ncf ncm b m p = int32 (int32 (ncf * int32 (m + int32 (b * ncm))) + int p)"

text \<open>
  The work arrays \<^verbatim>\<open>double T[24], S[24]\<close> are lists of length 24. Their initial content is
  never read: every entry the second loop reads has been written before.
\<close>

definition cheb_size :: nat where
  "cheb_size = 24"

text \<open>
  \<^verbatim>\<open>for (p = 2; p < ncf; p++) { T[p] = 2.0*t0*T[p-1] - T[p-2];
       S[p] = 2.0*t0*S[p-1] + 2.0*T[p-1] - S[p-2]; }\<close>
  over the list of the values \<open>p\<close> takes.
\<close>

primrec cheb_loop :: "'a arith \<Rightarrow> nat list \<Rightarrow> 'a \<Rightarrow> 'a list \<times> 'a list \<Rightarrow> error + ('a list \<times> 'a list)" where
  "cheb_loop ar [] t0 TS = Inr TS"
| "cheb_loop ar (p # ps) t0 TS =
     (if p < length (fst TS) \<and> p < length (snd TS)
      then cheb_loop ar ps t0
             ((fst TS)[p := d_sub ar (d_mul ar (d_mul ar (d_of_int ar 2) t0) (fst TS ! (p - 1)))
                                     (fst TS ! (p - 2))],
              (snd TS)[p := d_sub ar (d_add ar (d_mul ar (d_mul ar (d_of_int ar 2) t0) (snd TS ! (p - 1)))
                                               (d_mul ar (d_of_int ar 2) (fst TS ! (p - 1))))
                                     (snd TS ! (p - 2))])
      else Inl ArrayIndexOutOfBounds)"

text \<open>
  \<^verbatim>\<open>for (p = 0; p < ncf; p++) { u[m] += T[p] * P[n+p]; v[m] += S[p] * P[n+p] * c; }\<close>
  starting from \<^verbatim>\<open>u[m] = v[m] = 0.0\<close>; the argument \<open>idx\<close> gives the index \<^verbatim>\<open>n+p\<close>.
\<close>

primrec cheb_sum :: "'a arith \<Rightarrow> nat list \<Rightarrow> (int \<Rightarrow> 'a) \<Rightarrow> (nat \<Rightarrow> int) \<Rightarrow> 'a list \<Rightarrow> 'a list \<Rightarrow> 'a \<Rightarrow> 'a \<times> 'a \<Rightarrow> 'a \<times> 'a" where
  "cheb_sum ar [] P idx T S c uv = uv"
| "cheb_sum ar (p # ps) P idx T S c uv =
     cheb_sum ar ps P idx T S c
       (d_add ar (fst uv) (d_mul ar (T ! p) (P (idx p))),
        d_add ar (snd uv) (d_mul ar (d_mul ar (S ! p) (P (idx p))) c))"

text \<open>
  The coefficient block \<^verbatim>\<open>double *P\<close> is the function from an index \<open>k\<close> to \<^verbatim>\<open>P[k]\<close>. The
  results \<^verbatim>\<open>u[0..ncm)\<close> and \<^verbatim>\<open>v[0..ncm)\<close> are returned as two lists; the caller stores them.
\<close>

definition jpl_work_in :: "'a arith \<Rightarrow> (int \<Rightarrow> 'a) \<Rightarrow> int \<Rightarrow> int \<Rightarrow> int \<Rightarrow> 'a \<Rightarrow> 'a \<Rightarrow> error + ('a list \<times> 'a list)" where
  "jpl_work_in ar P ncm ncf niv t0 t1 =
     (let t = d_mul ar t0 (d_of_int ar niv);
          t0' = d_sub ar (d_mul ar (d_of_int ar 2) (d_fmod ar t (d_of_int ar 1))) (d_of_int ar 1);
          c = d_div ar (d_div ar (d_of_int ar (int32 (niv * 2))) t1) (d_of_int ar 86400);
          b = int32 (d_to_int ar t)
      in case cheb_loop ar [2 ..< nat ncf] t0'
                ((replicate cheb_size (d_of_int ar 0))[0 := d_of_int ar 1, 1 := t0'],
                 (replicate cheb_size (d_of_int ar 0))[0 := d_of_int ar 0, 1 := d_of_int ar 1]) of
           Inl e \<Rightarrow> Inl e
         | Inr (T, S) \<Rightarrow>
             Inr (map (\<lambda>m. fst (cheb_sum ar [0 ..< nat ncf] P (coef_index ncf ncm b (int m)) T S c
                                   (d_of_int ar 0, d_of_int ar 0))) [0 ..< nat ncm],
                  map (\<lambda>m. snd (cheb_sum ar [0 ..< nat ncf] P (coef_index ncf ncm b (int m)) T S c
                                   (d_of_int ar 0, d_of_int ar 0))) [0 ..< nat ncm]))"

text \<open>The evaluator on real numbers.\<close>

definition jpl_work :: "(int \<Rightarrow> real) \<Rightarrow> int \<Rightarrow> int \<Rightarrow> int \<Rightarrow> real \<Rightarrow> real \<Rightarrow> error + (real list \<times> real list)" where
  "jpl_work = jpl_work_in real_arith"

text \<open>
  The Chebyshev sequences as the specification states them,
  \<open>T[0] = 1, T[1] = x, T[p] = 2x T[p-1] - T[p-2]\<close> and
  \<open>S[0] = 0, S[1] = 1, S[p] = 2x S[p-1] + 2 T[p-1] - S[p-2]\<close>,
  with the grouping \<open>(2 x) T[p-1] - T[p-2]\<close> and \<open>((2 x) S[p-1] + 2 T[p-1]) - S[p-2]\<close>, in
  an arbitrary arithmetic.
\<close>

fun cheb_T :: "'a arith \<Rightarrow> 'a \<Rightarrow> nat \<Rightarrow> 'a" where
  "cheb_T ar x 0 = d_of_int ar 1"
| "cheb_T ar x (Suc 0) = x"
| "cheb_T ar x (Suc (Suc p)) =
     d_sub ar (d_mul ar (d_mul ar (d_of_int ar 2) x) (cheb_T ar x (Suc p))) (cheb_T ar x p)"

fun cheb_S :: "'a arith \<Rightarrow> 'a \<Rightarrow> nat \<Rightarrow> 'a" where
  "cheb_S ar x 0 = d_of_int ar 0"
| "cheb_S ar x (Suc 0) = d_of_int ar 1"
| "cheb_S ar x (Suc (Suc p)) =
     d_sub ar (d_add ar (d_mul ar (d_mul ar (d_of_int ar 2) x) (cheb_S ar x (Suc p)))
                        (d_mul ar (d_of_int ar 2) (cheb_T ar x (Suc p))))
              (cheb_S ar x p)"

text \<open>
  The sums as the specification states them, accumulated from zero in the order of
  increasing \<open>p\<close>: \<open>((0 + a 0) + a 1) + a 2\<close> for three terms.
\<close>

definition sum_upto :: "'a arith \<Rightarrow> nat \<Rightarrow> (nat \<Rightarrow> 'a) \<Rightarrow> 'a" where
  "sum_upto ar n a = foldl (\<lambda>acc p. d_add ar acc (a p)) (d_of_int ar 0) [0 ..< n]"

text \<open>The same sequences on real numbers.\<close>

fun spec_T :: "real \<Rightarrow> nat \<Rightarrow> real" where
  "spec_T x 0 = 1"
| "spec_T x (Suc 0) = x"
| "spec_T x (Suc (Suc p)) = 2 * x * spec_T x (Suc p) - spec_T x p"

fun spec_S :: "real \<Rightarrow> nat \<Rightarrow> real" where
  "spec_S x 0 = 0"
| "spec_S x (Suc 0) = 1"
| "spec_S x (Suc (Suc p)) = 2 * x * spec_S x (Suc p) + 2 * spec_T x (Suc p) - spec_S x p"


subsection \<open>The ephemeris header and the body helpers\<close>

text \<open>The body codes of the user interface (the first \<^verbatim>\<open>enum\<close>) and of the file (the second).\<close>

datatype plan = PLAN_BAR | PLAN_SOL | PLAN_EAR | PLAN_EMB | PLAN_LUN | PLAN_MER | PLAN_VEN
  | PLAN_MAR | PLAN_JUP | PLAN_SAT | PLAN_URA | PLAN_NEP | PLAN_PLU

datatype jpl_body = JPL_MER | JPL_VEN | JPL_EMB | JPL_MAR | JPL_JUP | JPL_SAT | JPL_URA
  | JPL_NEP | JPL_PLU | JPL_LUN | JPL_SUN | JPL_NUT | JPL_LIB | JPL_MAN | JPL_TDB

text \<open>
  \<^verbatim>\<open>struct _jpl_s\<close>, with the fields the modelled functions read. The arrays indexed by the
  second \<^verbatim>\<open>enum\<close> are functions of it. \<^verbatim>\<open>rec\<close> is the record size in bytes. The mapping
  \<^verbatim>\<open>map\<close> is the function from a byte offset in the file to the \<^verbatim>\<open>double\<close> stored there
  (the file is taken to cover every record that is addressed); \<open>None\<close> is the null pointer.
\<close>

record jpl_s =
  jpl_beg :: real
  jpl_end :: real
  jpl_inc :: real
  jpl_cau :: real
  jpl_cem :: real
  jpl_off :: "jpl_body \<Rightarrow> int"
  jpl_ncf :: "jpl_body \<Rightarrow> int"
  jpl_niv :: "jpl_body \<Rightarrow> int"
  jpl_ncm :: "jpl_body \<Rightarrow> int"
  jpl_rec :: nat
  jpl_map :: "(int \<Rightarrow> real) option"

text \<open>
  The helpers \<^verbatim>\<open>_bar\<close>, \<^verbatim>\<open>_sun\<close>, ... and their table \<^verbatim>\<open>_help\<close> are named \<open>help_bar\<close>,
  \<open>help_sun\<close>, ... and \<open>help_tab\<close> here (a name cannot begin with an underscore).

  The common body of \<^verbatim>\<open>_sun\<close>, \<^verbatim>\<open>_emb\<close>, \<^verbatim>\<open>_mer\<close>, ...:
  \<^verbatim>\<open>jpl_work(&z[jpl->off[B]], jpl->ncm[B], jpl->ncf[B], jpl->niv[B], t, jpl->inc, pos->u, pos->v)\<close>.
  The pointer \<^verbatim>\<open>double *z\<close> is the function from \<open>k\<close> to \<^verbatim>\<open>z[k]\<close>.
\<close>

definition body_work :: "jpl_s \<Rightarrow> (int \<Rightarrow> real) \<Rightarrow> real \<Rightarrow> jpl_body \<Rightarrow> mpos_s \<Rightarrow> error + mpos_s" where
  "body_work jpl z t B pos =
     (case jpl_work (\<lambda>k. z (jpl_off jpl B + k)) (jpl_ncm jpl B) (jpl_ncf jpl B) (jpl_niv jpl B) t (jpl_inc jpl) of
        Inl e \<Rightarrow> Inl e
      | Inr (us, vs) \<Rightarrow>
          (case vec_store us (pos_u pos) of
             Inl e \<Rightarrow> Inl e
           | Inr u \<Rightarrow>
               (case vec_store vs (pos_v pos) of
                  Inl e \<Rightarrow> Inl e
                | Inr v \<Rightarrow> Inr (pos\<lparr>pos_u := u, pos_v := v\<rparr>))))"

definition help_bar :: "jpl_s \<Rightarrow> (int \<Rightarrow> real) \<Rightarrow> real \<Rightarrow> mpos_s \<Rightarrow> error + mpos_s" where
  "help_bar jpl z t pos = Inr (pos\<lparr>pos_u := vecpos_nul (pos_u pos), pos_v := vecpos_nul (pos_v pos)\<rparr>)"

definition help_sun :: "jpl_s \<Rightarrow> (int \<Rightarrow> real) \<Rightarrow> real \<Rightarrow> mpos_s \<Rightarrow> error + mpos_s" where
  "help_sun jpl z t pos = body_work jpl z t JPL_SUN pos"

definition help_emb :: "jpl_s \<Rightarrow> (int \<Rightarrow> real) \<Rightarrow> real \<Rightarrow> mpos_s \<Rightarrow> error + mpos_s" where
  "help_emb jpl z t pos = body_work jpl z t JPL_EMB pos"

definition help_mer :: "jpl_s \<Rightarrow> (int \<Rightarrow> real) \<Rightarrow> real \<Rightarrow> mpos_s \<Rightarrow> error + mpos_s" where
  "help_mer jpl z t pos = body_work jpl z t JPL_MER pos"

definition help_ven :: "jpl_s \<Rightarrow> (int \<Rightarrow> real) \<Rightarrow> real \<Rightarrow> mpos_s \<Rightarrow> error + mpos_s" where
  "help_ven jpl z t pos = body_work jpl z t JPL_VEN pos"

definition help_mar :: "jpl_s \<Rightarrow> (int \<Rightarrow> real) \<Rightarrow> real \<Rightarrow> mpos_s \<Rightarrow> error + mpos_s" where
  "help_mar jpl z t pos = body_work jpl z t JPL_MAR pos"

definition help_jup :: "jpl_s \<Rightarrow> (int \<Rightarrow> real) \<Rightarrow> real \<Rightarrow> mpos_s \<Rightarrow> error + mpos_s" where
  "help_jup jpl z t pos = body_work jpl z t JPL_JUP pos"

definition help_sat :: "jpl_s \<Rightarrow> (int \<Rightarrow> real) \<Rightarrow> real \<Rightarrow> mpos_s \<Rightarrow> error + mpos_s" where
  "help_sat jpl z t pos = body_work jpl z t JPL_SAT pos"

definition help_ura :: "jpl_s \<Rightarrow> (int \<Rightarrow> real) \<Rightarrow> real \<Rightarrow> mpos_s \<Rightarrow> error + mpos_s" where
  "help_ura jpl z t pos = body_work jpl z t JPL_URA pos"

definition help_nep :: "jpl_s \<Rightarrow> (int \<Rightarrow> real) \<Rightarrow> real \<Rightarrow> mpos_s \<Rightarrow> error + mpos_s" where
  "help_nep jpl z t pos = body_work jpl z t JPL_NEP pos"

definition help_plu :: "jpl_s \<Rightarrow> (int \<Rightarrow> real) \<Rightarrow> real \<Rightarrow> mpos_s \<Rightarrow> error + mpos_s" where
  "help_plu jpl z t pos = body_work jpl z t JPL_PLU pos"

text \<open>
  \<^verbatim>\<open>_ear\<close> and \<^verbatim>\<open>_lun\<close>. Their locals \<^verbatim>\<open>emb\<close> and \<^verbatim>\<open>lun\<close> are not initialised; the content
  they start with is the parameter \<open>junk\<close> (it shows only where a header gives a body
  fewer than three components).
\<close>

definition help_ear :: "mpos_s \<Rightarrow> jpl_s \<Rightarrow> (int \<Rightarrow> real) \<Rightarrow> real \<Rightarrow> mpos_s \<Rightarrow> error + mpos_s" where
  "help_ear junk jpl z t pos =
     (case body_work jpl z t JPL_EMB junk of
        Inl e \<Rightarrow> Inl e
      | Inr emb \<Rightarrow>
          (case body_work jpl z t JPL_LUN junk of
             Inl e \<Rightarrow> Inl e
           | Inr lun \<Rightarrow>
               Inr (pos\<lparr>pos_u := vecpos_off (vecpos_set (pos_u pos) (pos_u emb)) (pos_u lun)
                                     (- 1 / (1 + jpl_cem jpl)),
                        pos_v := vecpos_off (vecpos_set (pos_v pos) (pos_v emb)) (pos_v lun)
                                     (- 1 / (1 + jpl_cem jpl))\<rparr>)))"

definition help_lun :: "mpos_s \<Rightarrow> jpl_s \<Rightarrow> (int \<Rightarrow> real) \<Rightarrow> real \<Rightarrow> mpos_s \<Rightarrow> error + mpos_s" where
  "help_lun junk jpl z t pos =
     (case body_work jpl z t JPL_EMB junk of
        Inl e \<Rightarrow> Inl e
      | Inr emb \<Rightarrow>
          (case body_work jpl z t JPL_LUN junk of
             Inl e \<Rightarrow> Inl e
           | Inr lun \<Rightarrow>
               Inr (pos\<lparr>pos_u := vecpos_off (vecpos_set (pos_u pos) (pos_u emb)) (pos_u lun)
                                     (jpl_cem jpl / (1 + jpl_cem jpl)),
                        pos_v := vecpos_off (vecpos_set (pos_v pos) (pos_v emb)) (pos_v lun)
                                     (jpl_cem jpl / (1 + jpl_cem jpl))\<rparr>)))"

text \<open>The table \<^verbatim>\<open>_help[_NUM_TEST]\<close> of function pointers, indexed by the body code.\<close>

fun help_tab :: "mpos_s \<Rightarrow> plan \<Rightarrow> jpl_s \<Rightarrow> (int \<Rightarrow> real) \<Rightarrow> real \<Rightarrow> mpos_s \<Rightarrow> error + mpos_s" where
  "help_tab junk PLAN_BAR = help_bar"
| "help_tab junk PLAN_SOL = help_sun"
| "help_tab junk PLAN_EAR = help_ear junk"
| "help_tab junk PLAN_EMB = help_emb"
| "help_tab junk PLAN_LUN = help_lun junk"
| "help_tab junk PLAN_MER = help_mer"
| "help_tab junk PLAN_VEN = help_ven"
| "help_tab junk PLAN_MAR = help_mar"
| "help_tab junk PLAN_JUP = help_jup"
| "help_tab junk PLAN_SAT = help_sat"
| "help_tab junk PLAN_URA = help_ura"
| "help_tab junk PLAN_NEP = help_nep"
| "help_tab junk PLAN_PLU = help_plu"

subsection \<open>The lookup \<^verbatim>\<open>jpl_calc\<close>\<close>

fun vec_sub :: "vec3 \<Rightarrow> vec3 \<Rightarrow> vec3" where
  "vec_sub (a0, a1, a2) (b0, b1, b2) = (a0 - b0, a1 - b1, a2 - b2)"

text \<open>
  The part of \<^verbatim>\<open>jpl_calc\<close> after the record has been located: the two helper calls on the
  locals \<^verbatim>\<open>pos\<close> and \<^verbatim>\<open>ref\<close> (not initialised: \<open>junk\<close>), the difference, the time stamp,
  and the return value 0.
\<close>

definition jpl_calc_at :: "jpl_s \<Rightarrow> mpos_s \<Rightarrow> real \<Rightarrow> plan \<Rightarrow> plan \<Rightarrow> mpos_s \<Rightarrow> (int \<Rightarrow> real) \<Rightarrow> real
    \<Rightarrow> error + (int \<times> mpos_s)" where
  "jpl_calc_at pl now jde n m junk z t =
     (case help_tab junk n pl z t junk of
        Inl e \<Rightarrow> Inl e
      | Inr pos \<Rightarrow>
          (case help_tab junk m pl z t junk of
             Inl e \<Rightarrow> Inl e
           | Inr ref \<Rightarrow>
               Inr (0, now\<lparr>pos_u := vec_sub (pos_u pos) (pos_u ref),
                           pos_v := vec_sub (pos_v pos) (pos_v ref),
                           pos_jde := jde\<rparr>)))"

text \<open>
  \<^verbatim>\<open>jpl_calc(pl, now, jde, n, m)\<close> returns the C return value together with the content of
  \<^verbatim>\<open>*now\<close> after the call. \<^verbatim>\<open>blk\<close> is a \<^verbatim>\<open>u_int32_t\<close>, so \<^verbatim>\<open>blk + 2\<close> wraps at 32 bits;
  \<^verbatim>\<open>pl->map + (blk + 2) * pl->rec\<close> is arithmetic on a \<^verbatim>\<open>void *\<close>, in bytes, and \<^verbatim>\<open>z[k]\<close> is
  the \<^verbatim>\<open>double\<close> at 8 \<open>k\<close> bytes from there.
\<close>

definition jpl_calc :: "jpl_s option \<Rightarrow> mpos_s \<Rightarrow> real \<Rightarrow> plan \<Rightarrow> plan \<Rightarrow> mpos_s \<Rightarrow> error + (int \<times> mpos_s)" where
  "jpl_calc plo now jde n m junk =
     (case plo of
        None \<Rightarrow> Inr (- 1, now)
      | Some pl \<Rightarrow>
          (case (if jde < jpl_beg pl \<or> jde > jpl_end pl then None else jpl_map pl) of
             None \<Rightarrow> Inr (- 1, now)
           | Some mem \<Rightarrow>
               (case div_to_u32 (jde - jpl_beg pl) (jpl_inc pl) of
                  None \<Rightarrow> Inl UndefinedConversion
                | Some blk \<Rightarrow>
                    jpl_calc_at pl now jde n m junk
                      (\<lambda>k. mem (int (unat (blk + 2) * jpl_rec pl) + 8 * k))
                      (fmod (jde - jpl_beg pl) (jpl_inc pl) / jpl_inc pl))))"

subsection \<open>The queries \<^verbatim>\<open>ephem\<close> and \<^verbatim>\<open>ast_ephem\<close>\<close>

text \<open>
  The minor-body kernel (\<^verbatim>\<open>spk.h\<close>) is outside the source: a handle \<^verbatim>\<open>struct spk_s *\<close> is the
  function that \<^verbatim>\<open>spk_calc\<close> performs with it, from the body index, the epoch and the
  content of \<^verbatim>\<open>*pos\<close> before the call to its content after the call.
\<close>

type_synonym spk_s = "int \<Rightarrow> real \<Rightarrow> mpos_s \<Rightarrow> mpos_s"

definition spk_calc :: "spk_s \<Rightarrow> int \<Rightarrow> real \<Rightarrow> mpos_s \<Rightarrow> mpos_s" where
  "spk_calc spl i jde pos = spl i jde pos"

text \<open>
  What is outside the program: the value \<^verbatim>\<open>jpl_init()\<close> returns (it reads the file
  \<^verbatim>\<open>linux_p1550p2650.430\<close>; \<open>None\<close> is \<^verbatim>\<open>NULL\<close>), the value \<^verbatim>\<open>spk_init\<close> returns, and the
  content of a local \<^verbatim>\<open>struct mpos_s\<close> that has not been initialised.
\<close>

record env =
  env_jpl_init :: "jpl_s option"
  env_spk_init :: "spk_s option"
  env_junk :: mpos_s

text \<open>The \<^verbatim>\<open>static\<close> variables of \<^verbatim>\<open>ephem\<close> and of \<^verbatim>\<open>ast_ephem\<close>.\<close>

record statics =
  ephem_initialized :: bool
  ephem_pl :: "jpl_s option"
  ephem_spl :: "spk_s option"
  ast_initialized :: bool
  ast_spl :: "spk_s option"

text \<open>The variables the caller passes by address: \<^verbatim>\<open>m, x, y, z, vx, vy, vz\<close>.\<close>

record ephem_out =
  out_m :: real
  out_x :: real
  out_y :: real
  out_z :: real
  out_vx :: real
  out_vy :: real
  out_vz :: real

text \<open>The table \<^verbatim>\<open>double M[11]\<close> of \<^verbatim>\<open>ephem\<close>.\<close>

definition M_ephem :: "real list" where
  "M_ephem =
     [295912208285591100 / 10 ^ 21,
      491248045036476000 / 10 ^ 28,
      724345233264412000 / 10 ^ 27,
      888769244512563400 / 10 ^ 27,
      109318945074237400 / 10 ^ 28,
      954954869555077000 / 10 ^ 28,
      282534584083387000 / 10 ^ 24,
      845970607324503000 / 10 ^ 25,
      129202482578296000 / 10 ^ 25,
      152435734788511000 / 10 ^ 25,
      217844105197418000 / 10 ^ 29]"

text \<open>The table \<^verbatim>\<open>double M[16]\<close> of \<^verbatim>\<open>ast_ephem\<close>.\<close>

definition M_ast :: "real list" where
  "M_ast =
     [1400476556172344 / 10 ^ 28,
      3854750187808810 / 10 ^ 29,
      3104448198938713 / 10 ^ 29,
      1235800787294125 / 10 ^ 29,
      6343280473648602 / 10 ^ 30,
      5256168678493662 / 10 ^ 30,
      5198126979457498 / 10 ^ 30,
      4678307418350905 / 10 ^ 30,
      3617538317147937 / 10 ^ 30,
      3411586826193812 / 10 ^ 30,
      3180659282652541 / 10 ^ 30,
      2577114127311047 / 10 ^ 30,
      2531091726015068 / 10 ^ 30,
      2476788101255867 / 10 ^ 30,
      2295559390637462 / 10 ^ 30,
      2199295173574073 / 10 ^ 30]"

text \<open>
  The block \<^verbatim>\<open>if (initialized == 0) { ... }\<close> of \<^verbatim>\<open>ephem\<close>: either file failing to load ends
  the process.
\<close>

definition ephem_init :: "env \<Rightarrow> statics \<Rightarrow> error + statics" where
  "ephem_init e st =
     (if ephem_initialized st then Inr st
      else (case env_jpl_init e of
              None \<Rightarrow> Inl ExitFailure
            | Some pl \<Rightarrow>
                (case env_spk_init e of
                   None \<Rightarrow> Inl ExitFailure
                 | Some spl \<Rightarrow>
                     Inr (st\<lparr>ephem_initialized := True, ephem_pl := Some pl, ephem_spl := Some spl\<rparr>))))"

text \<open>
  The eleven blocks \<^verbatim>\<open>if (i==k) { *m = M[k]; jpl_calc(pl, &now, jde, PLAN_..., PLAN_BAR); ... }\<close>
  differ in the body code only; at most one of them runs.
\<close>

definition ephem_plan :: "int \<Rightarrow> plan option" where
  "ephem_plan i =
     (if i = 0 then Some PLAN_SOL
      else if i = 1 then Some PLAN_MER
      else if i = 2 then Some PLAN_VEN
      else if i = 3 then Some PLAN_EAR
      else if i = 4 then Some PLAN_LUN
      else if i = 5 then Some PLAN_MAR
      else if i = 6 then Some PLAN_JUP
      else if i = 7 then Some PLAN_SAT
      else if i = 8 then Some PLAN_URA
      else if i = 9 then Some PLAN_NEP
      else if i = 10 then Some PLAN_PLU
      else None)"

text \<open>
  \<^verbatim>\<open>ephem(G, i, t, &m, &x, &y, &z, &vx, &vy, &vz)\<close>. The return value of \<^verbatim>\<open>jpl_calc\<close> is not
  looked at; the local \<^verbatim>\<open>now\<close> is not initialised before the call.
\<close>

definition ephem :: "env \<Rightarrow> statics \<Rightarrow> real \<Rightarrow> int \<Rightarrow> real \<Rightarrow> ephem_out \<Rightarrow> error + (statics \<times> ephem_out)" where
  "ephem e st G i t out =
     (let M = map (\<lambda>g. g / G) M_ephem
      in case ephem_init e st of
           Inl err \<Rightarrow> Inl err
         | Inr st' \<Rightarrow>
             (case ephem_plan i of
                None \<Rightarrow> Inr (st', out)
              | Some body \<Rightarrow>
                  (case jpl_calc (ephem_pl st') (env_junk e) t body PLAN_BAR (env_junk e) of
                     Inl err \<Rightarrow> Inl err
                   | Inr (rc, now) \<Rightarrow>
                       (case ephem_pl st' of
                          None \<Rightarrow> Inl NullDereference
                        | Some pl \<Rightarrow>
                            (let u = vecpos_div (pos_u now) (jpl_cau pl);
                                 v = vecpos_div (pos_v now) (jpl_cau pl / 86400)
                             in Inr (st', \<lparr>out_m = M ! nat i,
                                          out_x = vec_nth u 0, out_y = vec_nth u 1, out_z = vec_nth u 2,
                                          out_vx = vec_nth v 0, out_vy = vec_nth v 1, out_vz = vec_nth v 2\<rparr>))))))"

definition ast_init :: "env \<Rightarrow> statics \<Rightarrow> error + statics" where
  "ast_init e st =
     (if ast_initialized st then Inr st
      else (case env_spk_init e of
              None \<Rightarrow> Inl ExitFailure
            | Some spl \<Rightarrow> Inr (st\<lparr>ast_initialized := True, ast_spl := Some spl\<rparr>)))"

text \<open>\<^verbatim>\<open>ast_ephem(G, i, t, &m, &x, &y, &z)\<close>.\<close>

definition ast_ephem :: "env \<Rightarrow> statics \<Rightarrow> real \<Rightarrow> int \<Rightarrow> real \<Rightarrow> ephem_out \<Rightarrow> error + (statics \<times> ephem_out)" where
  "ast_ephem e st G i t out =
     (if i < 0 \<or> i > 15 then Inl ExitFailure
      else (let M = map (\<lambda>g. g / G) M_ast
            in case ast_init e st of
                 Inl err \<Rightarrow> Inl err
               | Inr st' \<Rightarrow>
                   (case ast_spl st' of
                      None \<Rightarrow> Inl NullDereference
                    | Some spl \<Rightarrow>
                        (let pos = spk_calc spl i t (env_junk e)
                         in Inr (st', out\<lparr>out_m := M ! nat i,
                                          out_x := vec_nth (pos_u pos) 0,
                                          out_y := vec_nth (pos_u pos) 1,
                                          out_z := vec_nth (pos_u pos) 2\<rparr>)))))"

subsection \<open>The force routine \<^verbatim>\<open>rebx_ephemeris_forces\<close>\<close>

text \<open>
  The speed of light, the parameter \<^verbatim>\<open>c\<close>: a finite \<^verbatim>\<open>double\<close> or \<open>+\<infinity>\<close>. Its square
  \<^verbatim>\<open>C2 = (*c)*(*c)\<close> is of the same kind, and a finite \<^verbatim>\<open>double\<close> divided by \<open>+\<infinity>\<close> is 0.
\<close>

datatype cdouble = Finite real | PlusInfinity

fun c_square :: "cdouble \<Rightarrow> cdouble" where
  "c_square (Finite a) = Finite (a * a)"
| "c_square PlusInfinity = PlusInfinity"

fun div_by :: "real \<Rightarrow> cdouble \<Rightarrow> real" where
  "div_by a (Finite b) = a / b"
| "div_by a PlusInfinity = 0"

text \<open>\<^verbatim>\<open>struct reb_particle\<close> (of \<^verbatim>\<open>rebound.h\<close>): the fields the routine reads and writes.\<close>

record reb_particle =
  p_x :: real
  p_y :: real
  p_z :: real
  p_vx :: real
  p_vy :: real
  p_vz :: real
  p_ax :: real
  p_ay :: real
  p_az :: real

text \<open>\<^verbatim>\<open>struct reb_simulation\<close>: the fields \<^verbatim>\<open>G\<close> and \<^verbatim>\<open>t\<close>.\<close>

record reb_simulation =
  sim_G :: real
  sim_t :: real

text \<open>
  The parameter store as the routine sees it: what \<^verbatim>\<open>rebx_get_param\<close> returns for the keys
  \<^verbatim>\<open>"N_ephem"\<close>, \<^verbatim>\<open>"N_ast"\<close> and \<^verbatim>\<open>"c"\<close>; \<open>None\<close> is \<^verbatim>\<open>NULL\<close>.
\<close>

record rebx_params =
  param_N_ephem :: "int option"
  param_N_ast :: "int option"
  param_c :: "cdouble option"

text \<open>
  What the routine reports: the \<^verbatim>\<open>fprintf\<close> for a missing \<^verbatim>\<open>N_ephem\<close>, the \<^verbatim>\<open>reb_error\<close> for a
  missing \<^verbatim>\<open>c\<close>, and the \<^verbatim>\<open>reb_warning\<close> of the relativistic iteration.
\<close>

datatype message = Need_N_ephem | Need_c | Not_converged

text \<open>
  The body of the inner loops over the particles:
  \<^verbatim>\<open>dx = particles[j].x - x; ... _r = sqrt(dx*dx + dy*dy + dz*dz); prefac = G*m/(_r*_r*_r);
  particles[j].ax -= prefac*dx; ...\<close>
\<close>

definition attract :: "real \<Rightarrow> real \<Rightarrow> real \<Rightarrow> real \<Rightarrow> real \<Rightarrow> reb_particle \<Rightarrow> reb_particle" where
  "attract G m x y z p =
     (let dx = p_x p - x;
          dy = p_y p - y;
          dz = p_z p - z;
          r = sqrt (dx * dx + dy * dy + dz * dz);
          prefac = G * m / (r * r * r)
      in p\<lparr>p_ax := p_ax p - prefac * dx, p_ay := p_ay p - prefac * dy, p_az := p_az p - prefac * dz\<rparr>)"

text \<open>
  \<^verbatim>\<open>for (int i=0; i<*N_ephem; i++) { ephem(G, i, t, &m, &x, &y, &z, &vx, &vy, &vz);
       for (int j=0; j<N; j++) { ... } }\<close>
  over the list of the values \<open>i\<close> takes. The array \<^verbatim>\<open>particles\<close> with its length \<^verbatim>\<open>N\<close> is a
  list. The state of the loop: the statics, the variables \<^verbatim>\<open>m, x, ...\<close>, the particles.
\<close>

primrec major_loop :: "env \<Rightarrow> real \<Rightarrow> real \<Rightarrow> int list \<Rightarrow> statics \<times> ephem_out \<times> reb_particle list
    \<Rightarrow> error + (statics \<times> ephem_out \<times> reb_particle list)" where
  "major_loop e G t [] s = Inr s"
| "major_loop e G t (i # is) s =
     (case ephem e (fst s) G i t (fst (snd s)) of
        Inl err \<Rightarrow> Inl err
      | Inr (st', out') \<Rightarrow>
          major_loop e G t is
            (st', out', map (attract G (out_m out') (out_x out') (out_y out') (out_z out')) (snd (snd s))))"

text \<open>
  \<^verbatim>\<open>for (int i=0; i<*N_ast; i++) { ast_ephem(G, i, t, &m, &x, &y, &z);
       x += xs; y += ys; z += zs; for (int j=0; j<N; j++) { ... } }\<close>
\<close>

primrec asteroid_loop :: "env \<Rightarrow> real \<Rightarrow> real \<Rightarrow> vec3 \<Rightarrow> int list \<Rightarrow> statics \<times> ephem_out \<times> reb_particle list
    \<Rightarrow> error + (statics \<times> ephem_out \<times> reb_particle list)" where
  "asteroid_loop e G t sun [] s = Inr s"
| "asteroid_loop e G t sun (i # is) s =
     (case ast_ephem e (fst s) G i t (fst (snd s)) of
        Inl err \<Rightarrow> Inl err
      | Inr (st', out') \<Rightarrow>
          (let out'' = out'\<lparr>out_x := out_x out' + vec_nth sun 0,
                             out_y := out_y out' + vec_nth sun 1,
                             out_z := out_z out' + vec_nth sun 2\<rparr>
           in asteroid_loop e G t sun is
                (st', out'', map (attract G (out_m out'') (out_x out'') (out_y out'') (out_z out'')) (snd (snd s)))))"

subsection \<open>The relativistic correction\<close>

definition DBL_EPSILON :: real where
  "DBL_EPSILON = 1 / 2 ^ 52"

definition max_iterations :: nat where
  "max_iterations = 10"

definition default_max_iterations :: nat where
  "default_max_iterations = 10"

text \<open>The variables of the iteration: \<^verbatim>\<open>vi\<close>, \<^verbatim>\<open>vi2\<close> and \<^verbatim>\<open>A\<close>.\<close>

record gr_state =
  gr_vi :: vec3
  gr_vi2 :: real
  gr_A :: real

text \<open>
  One pass of the loop body up to the test:
  \<^verbatim>\<open>vi.x = p.vx/(1.-A); ... vi2 = vi.x*vi.x + vi.y*vi.y + vi.z*vi.z; A = (0.5*vi2 + 3.*mu/ri)/C2;\<close>
\<close>

definition gr_update :: "reb_particle \<Rightarrow> real \<Rightarrow> real \<Rightarrow> cdouble \<Rightarrow> gr_state \<Rightarrow> gr_state" where
  "gr_update p mu ri C2 s =
     (let vix = p_vx p / (1 - gr_A s);
          viy = p_vy p / (1 - gr_A s);
          viz = p_vz p / (1 - gr_A s);
          vi2 = vix * vix + viy * viy + viz * viz
      in \<lparr>gr_vi = (vix, viy, viz), gr_vi2 = vi2, gr_A = div_by (0.5 * vi2 + 3 * mu / ri) C2\<rparr>)"

text \<open>
  The test \<^verbatim>\<open>(dvx*dvx + dvy*dvy + dvz*dvz)/vi2 < DBL_EPSILON*DBL_EPSILON\<close>, with \<^verbatim>\<open>old_v\<close> the
  value of \<^verbatim>\<open>vi\<close> before the pass. The numerator is a sum of squares; for \<^verbatim>\<open>vi2 = 0\<close> the
  quotient is a NaN or \<open>+\<infinity>\<close> and the comparison is false.
\<close>

definition gr_converged :: "vec3 \<Rightarrow> gr_state \<Rightarrow> bool" where
  "gr_converged old_v s =
     (let dv = vec_sub (gr_vi s) old_v;
          dv2 = vec_nth dv 0 * vec_nth dv 0 + vec_nth dv 1 * vec_nth dv 1 + vec_nth dv 2 * vec_nth dv 2
      in gr_vi2 s \<noteq> 0 \<and> dv2 / gr_vi2 s < DBL_EPSILON * DBL_EPSILON)"

text \<open>
  \<^verbatim>\<open>for(q=0; q<max_iterations; q++){ old_v = vi; ...; if (...) break; }\<close>: the value of \<^verbatim>\<open>q\<close>
  and of the variables when the loop is left.
\<close>

function gr_loop :: "reb_particle \<Rightarrow> real \<Rightarrow> real \<Rightarrow> cdouble \<Rightarrow> nat \<Rightarrow> nat \<Rightarrow> gr_state \<Rightarrow> nat \<times> gr_state" where
  "gr_loop p mu ri C2 n q s =
     (if q < n
      then (if gr_converged (gr_vi s) (gr_update p mu ri C2 s)
            then (q, gr_update p mu ri C2 s)
            else gr_loop p mu ri C2 n (Suc q) (gr_update p mu ri C2 s))
      else (q, s))"
  by pat_completeness auto
termination
  by (relation "measure (\<lambda>(p, mu, ri, C2, n, q, s). n - q)") auto

declare gr_loop.simps [simp del]

text \<open>
  For one particle \<^verbatim>\<open>p = particles[i]\<close>: the distance \<^verbatim>\<open>ri\<close>, and the variables before the
  loop: \<^verbatim>\<open>vi = (p.vx, p.vy, p.vz)\<close>, \<^verbatim>\<open>vi2\<close>, \<^verbatim>\<open>A = (0.5*vi2 + 3.*mu/ri)/C2\<close>.
\<close>

definition gr_ri :: "reb_particle \<Rightarrow> real" where
  "gr_ri p = sqrt (p_x p * p_x p + p_y p * p_y p + p_z p * p_z p)"

definition gr_init :: "real \<Rightarrow> cdouble \<Rightarrow> reb_particle \<Rightarrow> gr_state" where
  "gr_init mu C2 p =
     (let vi2 = p_vx p * p_vx p + p_vy p * p_vy p + p_vz p * p_vz p
      in \<lparr>gr_vi = (p_vx p, p_vy p, p_vz p), gr_vi2 = vi2,
          gr_A = div_by (0.5 * vi2 + 3 * mu / gr_ri p) C2\<rparr>)"

text \<open>
  The statements after the loop: \<^verbatim>\<open>B\<close>, \<^verbatim>\<open>rdotrdot\<close>, \<^verbatim>\<open>vidot\<close>, \<^verbatim>\<open>vdotvdot\<close>, \<^verbatim>\<open>D\<close>, and the
  vector \<^verbatim>\<open>B*(1.-A)*p.x - A*p.ax - D*vi.x\<close>, ... that is added to the acceleration, from
  the variables as the loop left them.
\<close>

definition gr_term :: "real \<Rightarrow> cdouble \<Rightarrow> reb_particle \<Rightarrow> gr_state \<Rightarrow> vec3" where
  "gr_term mu C2 p s =
     (let ri = gr_ri p;
          vi = gr_vi s;
          vi2 = gr_vi2 s;
          A = gr_A s;
          B = div_by ((mu / ri - 1.5 * vi2) * mu / (ri * ri * ri)) C2;
          rdotrdot = p_x p * p_vx p + p_y p * p_vy p + p_z p * p_vz p;
          vidot = (p_ax p + B * p_x p, p_ay p + B * p_y p, p_az p + B * p_z p);
          vdotvdot = vec_nth vi 0 * vec_nth vidot 0 + vec_nth vi 1 * vec_nth vidot 1
                       + vec_nth vi 2 * vec_nth vidot 2;
          D = div_by (vdotvdot - 3 * mu / (ri * ri * ri) * rdotrdot) C2
      in (B * (1 - A) * p_x p - A * p_ax p - D * vec_nth vi 0,
          B * (1 - A) * p_y p - A * p_ay p - D * vec_nth vi 1,
          B * (1 - A) * p_z p - A * p_az p - D * vec_nth vi 2))"

text \<open>The added vector and the value of \<^verbatim>\<open>q\<close> after the loop.\<close>

definition gr_correction :: "real \<Rightarrow> cdouble \<Rightarrow> reb_particle \<Rightarrow> vec3 \<times> nat" where
  "gr_correction mu C2 p =
     (let qs = gr_loop p mu (gr_ri p) C2 max_iterations 0 (gr_init mu C2 p)
      in (gr_term mu C2 p (snd qs), fst qs))"

text \<open>
  The body of the loop over the particles: the particle after
  \<^verbatim>\<open>particles[i].ax += ...; particles[i].ay += ...; particles[i].az += ...\<close>, and whether
  \<^verbatim>\<open>reb_warning\<close> was called (\<^verbatim>\<open>q==default_max_iterations\<close>).
\<close>

definition gr_particle :: "real \<Rightarrow> cdouble \<Rightarrow> reb_particle \<Rightarrow> reb_particle \<times> bool" where
  "gr_particle mu C2 p =
     (let cq = gr_correction mu C2 p
      in (p\<lparr>p_ax := p_ax p + vec_nth (fst cq) 0,
            p_ay := p_ay p + vec_nth (fst cq) 1,
            p_az := p_az p + vec_nth (fst cq) 2\<rparr>,
          snd cq = default_max_iterations))"

text \<open>
  The variables \<^verbatim>\<open>m, x, y, z, vx, vy, vz\<close> are declared without a value; each is written by a
  call of \<^verbatim>\<open>ephem\<close> or \<^verbatim>\<open>ast_ephem\<close> before it is read (the first pass of the first loop has
  \<open>i = 0\<close>). The model starts them at 0.
\<close>

definition out_uninit :: ephem_out where
  "out_uninit = \<lparr>out_m = 0, out_x = 0, out_y = 0, out_z = 0, out_vx = 0, out_vy = 0, out_vz = 0\<rparr>"

text \<open>
  \<^verbatim>\<open>rebx_ephemeris_forces(sim, force, particles, N)\<close>: an error, or the statics, the particles
  and the messages after the call. \<^verbatim>\<open>N_ast\<close> is dereferenced, without a test, when the
  condition of the asteroid loop is first evaluated.
\<close>

definition rebx_ephemeris_forces :: "env \<Rightarrow> statics \<Rightarrow> reb_simulation \<Rightarrow> rebx_params \<Rightarrow> reb_particle list
    \<Rightarrow> error + (statics \<times> reb_particle list \<times> message list)" where
  "rebx_ephemeris_forces e st sim ps particles =
     (case param_N_ephem ps of
        None \<Rightarrow> Inr (st, particles, [Need_N_ephem])
      | Some N_ephem \<Rightarrow>
          (case param_c ps of
             None \<Rightarrow> Inr (st, particles, [Need_c])
           | Some c \<Rightarrow>
               (let G = sim_G sim; t = sim_t sim; C2 = c_square c
                in case ephem e st G 3 t out_uninit of
                     Inl err \<Rightarrow> Inl err
                   | Inr (st1, earth) \<Rightarrow>
                       (case major_loop e G t (map int [0 ..< nat N_ephem])
                               (st1, out_uninit\<lparr>out_m := out_m earth\<rparr>, particles) of
                          Inl err \<Rightarrow> Inl err
                        | Inr (st2, out2, particles2) \<Rightarrow>
                            (case ephem e st2 G 0 t (out_uninit\<lparr>out_m := out_m out2\<rparr>) of
                               Inl err \<Rightarrow> Inl err
                             | Inr (st3, sun) \<Rightarrow>
                                 (case param_N_ast ps of
                                    None \<Rightarrow> Inl NullDereference
                                  | Some N_ast \<Rightarrow>
                                      (case asteroid_loop e G t (out_x sun, out_y sun, out_z sun)
                                              (map int [0 ..< nat N_ast])
                                              (st3, out2\<lparr>out_m := out_m sun\<rparr>, particles2) of
                                         Inl err \<Rightarrow> Inl err
                                       | Inr (st4, out4, particles4) \<Rightarrow>
                                           (let Msun = 1; mu = G * Msun;
                                                res = map (gr_particle mu C2) particles4
                                            in Inr (st4, map fst res,
                                                    map (\<lambda>d. Not_converged) (filter snd res))))))))))"

text \<open>
  The iteration as the specification states it: the \<open>k\<close>-th iterate of the update from a
  starting state, and the stopping test between iterate \<open>k\<close> and iterate \<open>k + 1\<close>.
\<close>

definition gr_iterate :: "reb_particle \<Rightarrow> real \<Rightarrow> real \<Rightarrow> cdouble \<Rightarrow> gr_state \<Rightarrow> nat \<Rightarrow> gr_state" where
  "gr_iterate p mu ri C2 s k = (gr_update p mu ri C2 ^^ k) s"

definition gr_stops :: "reb_particle \<Rightarrow> real \<Rightarrow> real \<Rightarrow> cdouble \<Rightarrow> gr_state \<Rightarrow> nat \<Rightarrow> bool" where
  "gr_stops p mu ri C2 s k \<longleftrightarrow>
     gr_converged (gr_vi (gr_iterate p mu ri C2 s k)) (gr_iterate p mu ri C2 s (Suc k))"

fun norm2 :: "vec3 \<Rightarrow> real" where
  "norm2 (a, b, c) = a * a + b * b + c * c"





subsection \<open>Concrete inputs\<close>





text \<open>
  A small ephemeris: records of one day from day 0 to day 10, two coefficients and one
  interval for each body, three components, records of 736 bytes. In the record of day 0
  (at byte \<open>2 \<times> 736 = 1472\<close>) the block at offset 2 has the \<open>x\<close> coefficients \<open>5, 43200\<close>
  and the block at offset 8 (the geocentric Moon) has \<open>8, 86400\<close>; every other \<^verbatim>\<open>double\<close>
  is 0.
\<close>

definition test_mem :: "int \<Rightarrow> real" where
  "test_mem a = (if a = 1488 then 5 else if a = 1496 then 43200
                 else if a = 1536 then 8 else if a = 1544 then 86400 else 0)"

definition test_off :: "jpl_body \<Rightarrow> int" where
  "test_off B = (if B = JPL_LUN then 8 else 2)"

definition test_jpl :: jpl_s where
  "test_jpl = \<lparr>jpl_beg = 0, jpl_end = 10, jpl_inc = 1, jpl_cau = 2, jpl_cem = 3,
               jpl_off = test_off, jpl_ncf = (\<lambda>B. 2), jpl_niv = (\<lambda>B. 1), jpl_ncm = (\<lambda>B. 3),
               jpl_rec = 736, jpl_map = Some test_mem\<rparr>"

definition test_junk :: mpos_s where
  "test_junk = \<lparr>pos_u = (7, 7, 7), pos_v = (7, 7, 7), pos_jde = 7\<rparr>"

definition test_z :: "int \<Rightarrow> real" where
  "test_z k = test_mem (1472 + 8 * k)"

text \<open>
  A header is well formed for the lookup when the step is positive and the number of
  records of the file, with the two reserved records, fits the \<^verbatim>\<open>u_int32_t\<close> that holds
  the record number.
\<close>

definition header_ok :: "jpl_s \<Rightarrow> bool" where
  "header_ok pl \<longleftrightarrow> 0 < jpl_inc pl \<and> (jpl_end pl - jpl_beg pl) / jpl_inc pl + 2 < 2 ^ 32"

text \<open>
  A minor-body kernel, the outside world in which both files load, and the statics before
  and after the first call of \<^verbatim>\<open>ephem\<close>.
\<close>

definition test_spk :: spk_s where
  "test_spk i jde pos = pos\<lparr>pos_u := (of_int i, 0, 0)\<rparr>"

definition test_env :: env where
  "test_env = \<lparr>env_jpl_init = Some test_jpl, env_spk_init = Some test_spk, env_junk = test_junk\<rparr>"

definition statics0 :: statics where
  "statics0 = \<lparr>ephem_initialized = False, ephem_pl = None, ephem_spl = None,
               ast_initialized = False, ast_spl = None\<rparr>"

definition statics1 :: statics where
  "statics1 = \<lparr>ephem_initialized = True, ephem_pl = Some test_jpl, ephem_spl = Some test_spk,
               ast_initialized = False, ast_spl = None\<rparr>"

text \<open>
  The velocity conversion as the specification words it: the difference of the two states
  divided by the AU length scale and by seconds-per-day.
\<close>

definition spec_velocity :: "real \<Rightarrow> real \<Rightarrow> real \<Rightarrow> real" where
  "spec_velocity v_body v_bary au = (v_body - v_bary) / au / 86400"

text \<open>
  The same ephemeris with every coefficient 0, so with every body at the barycentre and at
  rest; the outside world with it, and the statics once it is loaded.
\<close>

definition zero_mem :: "int \<Rightarrow> real" where
  "zero_mem a = 0"

definition test_jpl0 :: jpl_s where
  "test_jpl0 = test_jpl\<lparr>jpl_map := Some zero_mem\<rparr>"

definition test_env0 :: env where
  "test_env0 = \<lparr>env_jpl_init = Some test_jpl0, env_spk_init = Some test_spk, env_junk = test_junk\<rparr>"

definition statics2 :: statics where
  "statics2 = \<lparr>ephem_initialized = True, ephem_pl = Some test_jpl0, ephem_spl = Some test_spk,
               ast_initialized = False, ast_spl = None\<rparr>"

text \<open>
  Two particles on the \<open>x\<close> axis at distance 1 from the barycentre, one at rest and one
  moving; a finite speed of light; the simulation with \<open>G = 1\<close> at day 1/2; parameter stores with one major body,
  no asteroid and \<open>c = +\<infinity>\<close>, and with one of the three parameters missing; the catalogue
  value of the Sun; a body at the barycentre.
\<close>

definition p_rest :: reb_particle where
  "p_rest = \<lparr>p_x = 1, p_y = 0, p_z = 0, p_vx = 0, p_vy = 0, p_vz = 0, p_ax = 0, p_ay = 0, p_az = 0\<rparr>"

definition p_move :: reb_particle where
  "p_move = \<lparr>p_x = 1, p_y = 0, p_z = 0, p_vx = 1, p_vy = 0, p_vz = 0, p_ax = 0, p_ay = 0, p_az = 0\<rparr>"

definition c_test :: cdouble where
  "c_test = Finite (2 ^ 30)"

definition sim_scn :: reb_simulation where
  "sim_scn = \<lparr>sim_G = 1, sim_t = 1/2\<rparr>"


definition params_no_ast :: rebx_params where
  "params_no_ast = \<lparr>param_N_ephem = Some 1, param_N_ast = None, param_c = Some PlusInfinity\<rparr>"

definition params_no_ephem :: rebx_params where
  "params_no_ephem = \<lparr>param_N_ephem = None, param_N_ast = Some 0, param_c = Some PlusInfinity\<rparr>"

definition params_no_c :: rebx_params where
  "params_no_c = \<lparr>param_N_ephem = Some 1, param_N_ast = Some 0, param_c = None\<rparr>"

definition GM_sun :: real where
  "GM_sun = 295912208285591100 / 10 ^ 21"

definition body_at_origin :: "real \<Rightarrow> ephem_out" where
  "body_at_origin m = \<lparr>out_m = m, out_x = 0, out_y = 0, out_z = 0, out_vx = 0, out_vy = 0, out_vz = 0\<rparr>"

section \<open>Properties\<close>

subsection \<open>Auxiliary facts\<close>

lemma vec_nth_simps3:
  "vec_nth (a, b, c) 0 = a" "vec_nth (a, b, c) (Suc 0) = b" "vec_nth (a, b, c) (Suc (Suc 0)) = c"
  by simp_all

lemma all_less_3: "(\<forall>k<3. P k) \<longleftrightarrow> P 0 \<and> P (Suc 0) \<and> P (Suc (Suc 0))"
  by (auto simp: less_Suc_eq numeral_3_eq_3)





subsection \<open>The Chebyshev evaluator\<close>



text \<open>The first loop keeps the two arrays equal to the sequences of the specification.\<close>

lemma cheb_loop_spec:
  "length T = cheb_size \<Longrightarrow> length S = cheb_size \<Longrightarrow> 2 \<le> a \<Longrightarrow> n \<le> cheb_size \<Longrightarrow>
   (\<forall>p<a. T ! p = cheb_T ar x p \<and> S ! p = cheb_S ar x p) \<Longrightarrow>
   \<exists>T' S'. cheb_loop ar [a ..< n] x (T, S) = Inr (T', S') \<and> length T' = cheb_size \<and> length S' = cheb_size \<and>
       (\<forall>p<max a n. T' ! p = cheb_T ar x p \<and> S' ! p = cheb_S ar x p)"
proof (induction "n - a" arbitrary: a T S)
  case 0
  then have "[a ..< n] = []" by simp
  with 0 show ?case by (simp add: max_def)
next
  case (Suc k)
  then have lt: "a < n" by simp
  obtain a2 where a2: "a = Suc (Suc a2)" using Suc.prems(3)
    by (metis One_nat_def Suc_1 Suc_le_D Suc_le_mono)
  let ?T = "T[a := d_sub ar (d_mul ar (d_mul ar (d_of_int ar 2) x) (T ! (a - 1))) (T ! (a - 2))]"
  let ?S = "S[a := d_sub ar (d_add ar (d_mul ar (d_mul ar (d_of_int ar 2) x) (S ! (a - 1)))
                                      (d_mul ar (d_of_int ar 2) (T ! (a - 1))))
                            (S ! (a - 2))]"
  have inv: "\<forall>p<Suc a. ?T ! p = cheb_T ar x p \<and> ?S ! p = cheb_S ar x p"
  proof (intro allI impI)
    fix p assume "p < Suc a"
    show "?T ! p = cheb_T ar x p \<and> ?S ! p = cheb_S ar x p"
    proof (cases "p = a")
      case True
      with Suc.prems lt a2 show ?thesis by simp
    next
      case False
      with \<open>p < Suc a\<close> have "p < a" by simp
      with Suc.prems False show ?thesis by simp
    qed
  qed
  have "k = n - Suc a" using Suc.hyps(2) by simp
  from Suc.hyps(1)[OF this, of ?T ?S] Suc.prems inv
  obtain T' S' where r: "cheb_loop ar [Suc a ..< n] x (?T, ?S) = Inr (T', S')"
     "length T' = cheb_size" "length S' = cheb_size"
     "\<forall>p<max (Suc a) n. T' ! p = cheb_T ar x p \<and> S' ! p = cheb_S ar x p"
    by auto
  have "cheb_loop ar [a ..< n] x (T, S) = cheb_loop ar [Suc a ..< n] x (?T, ?S)"
    using lt Suc.prems by (simp add: upt_conv_Cons)
  with r lt show ?case by (auto simp: max_def)
qed

lemma cheb_setup:
  assumes "ncf \<le> 24"
  shows "\<exists>T S. cheb_loop ar [2 ..< nat ncf] x
            ((replicate cheb_size (d_of_int ar 0))[0 := d_of_int ar 1, 1 := x],
             (replicate cheb_size (d_of_int ar 0))[0 := d_of_int ar 0, 1 := d_of_int ar 1]) = Inr (T, S) \<and>
          (\<forall>p<max 2 (nat ncf). T ! p = cheb_T ar x p \<and> S ! p = cheb_S ar x p)"
proof -
  have init: "\<forall>p<2. (replicate cheb_size (d_of_int ar 0))[0 := d_of_int ar 1, 1 := x] ! p = cheb_T ar x p \<and>
                    (replicate cheb_size (d_of_int ar 0))[0 := d_of_int ar 0, 1 := d_of_int ar 1] ! p = cheb_S ar x p"
    by (auto simp: cheb_size_def less_Suc_eq numeral_2_eq_2)
  have n: "nat ncf \<le> cheb_size" using assms by (simp add: cheb_size_def)
  from cheb_loop_spec[OF _ _ _ n init] show ?thesis by auto
qed



text \<open>The second loop accumulates the two sums from the left.\<close>

lemma cheb_sum_fold:
  "cheb_sum ar ps P idx T S c (u, v) =
     (foldl (\<lambda>acc p. d_add ar acc (d_mul ar (T ! p) (P (idx p)))) u ps,
      foldl (\<lambda>acc p. d_add ar acc (d_mul ar (d_mul ar (S ! p) (P (idx p))) c)) v ps)"
  by (induction ps arbitrary: u v) simp_all

lemma cheb_sum_upto:
  assumes "\<forall>p<n. T ! p = cheb_T ar x p \<and> S ! p = cheb_S ar x p"
  shows "cheb_sum ar [0 ..< n] P idx T S c (d_of_int ar 0, d_of_int ar 0) =
           (sum_upto ar n (\<lambda>p. d_mul ar (cheb_T ar x p) (P (idx p))),
            sum_upto ar n (\<lambda>p. d_mul ar (d_mul ar (cheb_S ar x p) (P (idx p))) c))"
  unfolding cheb_sum_fold sum_upto_def using assms
  by (auto intro!: foldl_cong)

text \<open>The evaluator in an arbitrary arithmetic: what it returns, operation by operation.\<close>

lemma jpl_work_in_tree:
  assumes "ncf \<le> 24"
  shows "jpl_work_in ar P ncm ncf niv t0 t1 =
           (let t = d_mul ar t0 (d_of_int ar niv);
                x = d_sub ar (d_mul ar (d_of_int ar 2) (d_fmod ar t (d_of_int ar 1))) (d_of_int ar 1);
                c = d_div ar (d_div ar (d_of_int ar (int32 (niv * 2))) t1) (d_of_int ar 86400);
                b = int32 (d_to_int ar t)
            in Inr (map (\<lambda>m. sum_upto ar (nat ncf)
                               (\<lambda>p. d_mul ar (cheb_T ar x p) (P (coef_index ncf ncm b (int m) p))))
                        [0 ..< nat ncm],
                    map (\<lambda>m. sum_upto ar (nat ncf)
                               (\<lambda>p. d_mul ar (d_mul ar (cheb_S ar x p) (P (coef_index ncf ncm b (int m) p))) c))
                        [0 ..< nat ncm]))"
proof -
  define x where "x = d_sub ar (d_mul ar (d_of_int ar 2)
                         (d_fmod ar (d_mul ar t0 (d_of_int ar niv)) (d_of_int ar 1))) (d_of_int ar 1)"
  from cheb_setup[OF assms, of ar x] obtain T S where
    TS: "cheb_loop ar [2 ..< nat ncf] x
            ((replicate cheb_size (d_of_int ar 0))[0 := d_of_int ar 1, 1 := x],
             (replicate cheb_size (d_of_int ar 0))[0 := d_of_int ar 0, 1 := d_of_int ar 1]) = Inr (T, S)"
    and sp: "\<forall>p<max 2 (nat ncf). T ! p = cheb_T ar x p \<and> S ! p = cheb_S ar x p" by blast
  from sp have sp': "\<forall>p<nat ncf. T ! p = cheb_T ar x p \<and> S ! p = cheb_S ar x p" by simp
  show ?thesis
    by (simp only: jpl_work_in_def Let_def x_def[symmetric] TS sum.case prod.case
          cheb_sum_upto[OF sp'] fst_conv snd_conv)
qed


text \<open>On real numbers the sequences and the sums are those of the specification.\<close>

lemma real_arith_sel:
  "d_add real_arith = (+)" "d_sub real_arith = (-)" "d_mul real_arith = (*)" "d_div real_arith = (/)"
  "d_of_int real_arith = of_int" "d_fmod real_arith = fmod" "d_to_int real_arith = trunc_int"
  by (simp_all add: real_arith_def)

lemma cheb_T_real: "cheb_T real_arith x p = spec_T x p"
  by (induction x p rule: spec_T.induct) (simp_all add: real_arith_def)

lemma cheb_S_real: "cheb_S real_arith x p = spec_S x p"
  by (induction x p rule: spec_S.induct) (simp_all add: real_arith_def cheb_T_real[unfolded real_arith_def])

lemma sum_upto_real: "sum_upto real_arith n a = (\<Sum>p<n. a p)"
  by (induction n) (simp_all add: sum_upto_def real_arith_def)

text \<open>With two coefficients and one interval, at the middle of the record.\<close>

lemma jpl_work_test:
  "jpl_work P 3 2 1 (1/2) 1 = Inr ([P 0, P 2, P 4], [P 1 / 43200, P 3 / 43200, P 5 / 43200])"
  unfolding jpl_work_def
  apply (subst jpl_work_in_tree, simp)
  apply (simp only: Let_def real_arith_sel sum_upto_real cheb_T_real cheb_S_real)
  apply (simp add: int32_def coef_index_def fmod_def trunc_int_def upt_conv_Cons numeral_2_eq_2)
  done




subsection \<open>Earth and Moon\<close>

lemma body_work_test:
  "body_work test_jpl z (1/2) B pos =
     Inr (pos\<lparr>pos_u := (z (test_off B), z (test_off B + 2), z (test_off B + 4)),
              pos_v := (z (test_off B + 1) / 43200, z (test_off B + 3) / 43200, z (test_off B + 5) / 43200)\<rparr>)"
  by (cases "pos_u pos"; cases "pos_v pos") (simp add: body_work_def test_jpl_def jpl_work_test)

lemma test_cem: "jpl_cem test_jpl = 3"
  by (simp add: test_jpl_def)

lemma test_emb:
  "body_work test_jpl test_z (1/2) JPL_EMB test_junk = Inr \<lparr>pos_u = (5, 0, 0), pos_v = (1, 0, 0), pos_jde = 7\<rparr>"
  by (simp add: body_work_test test_off_def test_z_def test_mem_def test_junk_def)

lemma test_lun:
  "body_work test_jpl test_z (1/2) JPL_LUN test_junk = Inr \<lparr>pos_u = (8, 0, 0), pos_v = (2, 0, 0), pos_jde = 7\<rparr>"
  by (simp add: body_work_test test_off_def test_z_def test_mem_def test_junk_def)

text \<open>
  Claim C4. Wherever the Earth-Moon-barycentre entry and the geocentric lunar entry are
  evaluated (at any record \<open>z\<close> and fractional time \<open>t\<close>, so at every epoch), the helpers
  for Earth and Moon return, with \<open>\<mu>\<close> the Earth/Moon mass ratio of the header,
  Earth = EMB - Moon (1/(1+\<open>\<mu>\<close>)) and Moon = EMB + Moon (\<open>\<mu>\<close>/(1+\<open>\<mu>\<close>)), in each component of
  position and of velocity.
\<close>

theorem earth_moon_from_emb:
  assumes "body_work jpl z t JPL_EMB junk = Inr emb"
      and "body_work jpl z t JPL_LUN junk = Inr lun"
  shows "\<exists>earth moon.
           help_tab junk PLAN_EAR jpl z t pos = Inr earth \<and>
           help_tab junk PLAN_LUN jpl z t pos = Inr moon \<and>
           help_tab junk PLAN_EMB jpl z t junk = Inr emb \<and>
           (\<forall>k<3. vec_nth (pos_u earth) k = vec_nth (pos_u emb) k - vec_nth (pos_u lun) k * (1 / (1 + jpl_cem jpl)) \<and>
                   vec_nth (pos_v earth) k = vec_nth (pos_v emb) k - vec_nth (pos_v lun) k * (1 / (1 + jpl_cem jpl)) \<and>
                   vec_nth (pos_u moon) k = vec_nth (pos_u emb) k + vec_nth (pos_u lun) k * (jpl_cem jpl / (1 + jpl_cem jpl)) \<and>
                   vec_nth (pos_v moon) k = vec_nth (pos_v emb) k + vec_nth (pos_v lun) k * (jpl_cem jpl / (1 + jpl_cem jpl)))"
proof -
  obtain e0 e1 e2 where eu: "pos_u emb = (e0, e1, e2)" by (cases "pos_u emb")
  obtain f0 f1 f2 where ev: "pos_v emb = (f0, f1, f2)" by (cases "pos_v emb")
  obtain l0 l1 l2 where lu: "pos_u lun = (l0, l1, l2)" by (cases "pos_u lun")
  obtain m0 m1 m2 where lv: "pos_v lun = (m0, m1, m2)" by (cases "pos_v lun")
  have neg: "a + b * (- 1 / c) = a - b * (1 / c)" for a b c :: real by simp
  show ?thesis
    unfolding all_less_3
    using assms
    by (simp add: help_ear_def help_lun_def help_emb_def vecpos_set_def eu ev lu lv neg
          del: vec_nth.simps add: vec_nth_simps3)
qed

lemma test_ear:
  "help_tab test_junk PLAN_EAR test_jpl test_z (1/2) test_junk = Inr \<lparr>pos_u = (3, 0, 0), pos_v = (1/2, 0, 0), pos_jde = 7\<rparr>"
  using test_emb test_lun by (simp add: help_ear_def vecpos_set_def test_cem test_junk_def)

lemma test_moon:
  "help_tab test_junk PLAN_LUN test_jpl test_z (1/2) test_junk = Inr \<lparr>pos_u = (11, 0, 0), pos_v = (5/2, 0, 0), pos_jde = 7\<rparr>"
  using test_emb test_lun by (simp add: help_lun_def vecpos_set_def test_cem test_junk_def)

lemma test_help_emb:
  "help_tab test_junk PLAN_EMB test_jpl test_z (1/2) test_junk = Inr \<lparr>pos_u = (5, 0, 0), pos_v = (1, 0, 0), pos_jde = 7\<rparr>"
  using test_emb by (simp add: help_emb_def)

text \<open>In the small ephemeris: EMB at 5 with velocity 1, the Moon 8 from the Earth with velocity 2, \<open>\<mu> = 3\<close>.\<close>

theorem earth_moon_from_emb_witness:
  "body_work test_jpl test_z (1/2) JPL_EMB test_junk = Inr \<lparr>pos_u = (5, 0, 0), pos_v = (1, 0, 0), pos_jde = 7\<rparr> \<and>
   body_work test_jpl test_z (1/2) JPL_LUN test_junk = Inr \<lparr>pos_u = (8, 0, 0), pos_v = (2, 0, 0), pos_jde = 7\<rparr> \<and>
   help_tab test_junk PLAN_EAR test_jpl test_z (1/2) test_junk = Inr \<lparr>pos_u = (3, 0, 0), pos_v = (1/2, 0, 0), pos_jde = 7\<rparr> \<and>
   help_tab test_junk PLAN_LUN test_jpl test_z (1/2) test_junk = Inr \<lparr>pos_u = (11, 0, 0), pos_v = (5/2, 0, 0), pos_jde = 7\<rparr>"
proof -
  from earth_moon_from_emb[OF test_emb test_lun, of test_junk]
  obtain earth moon where
    a: "help_tab test_junk PLAN_EAR test_jpl test_z (1/2) test_junk = Inr earth"
    and b: "help_tab test_junk PLAN_LUN test_jpl test_z (1/2) test_junk = Inr moon" by blast
  from a b test_emb test_lun test_ear test_moon show ?thesis by simp
qed

lemma weights_sum:
  fixes mu a b :: real
  assumes mu: "1 + mu \<noteq> 0"
  shows "mu / (1 + mu) * (a + b * (- 1 / (1 + mu))) + 1 / (1 + mu) * (a + b * (mu / (1 + mu))) = a"
proof -
  define d where "d = 1 + mu"
  have d: "d \<noteq> 0" using mu by (simp add: d_def)
  have m: "mu = d - 1" by (simp add: d_def)
  show ?thesis unfolding d_def[symmetric] m using d by (simp add: field_simps)
qed

text \<open>
  Claim C5, as amended. For a mass ratio \<open>\<mu>\<close> with \<open>1 + \<mu> \<noteq> 0\<close>, the Earth and Moon
  states of the helpers, recombined with the weight \<open>\<mu>/(1+\<mu>)\<close> on Earth and the weight
  \<open>1/(1+\<mu>)\<close> on Moon, give back the Earth-Moon-barycentre state, in each component of
  position and of velocity, at any record and fractional time (so at every epoch). The
  equality is that of real numbers; in binary64 the recombination gives the barycentre
  back up to rounding only.
\<close>

theorem earth_moon_round_trip:
  assumes "help_tab junk PLAN_EMB jpl z t junk = Inr emb"
      and "help_tab junk PLAN_EAR jpl z t pos = Inr earth"
      and "help_tab junk PLAN_LUN jpl z t pos' = Inr moon"
      and "1 + jpl_cem jpl \<noteq> 0"
  shows "\<forall>k<3.
           jpl_cem jpl / (1 + jpl_cem jpl) * vec_nth (pos_u earth) k + 1 / (1 + jpl_cem jpl) * vec_nth (pos_u moon) k
             = vec_nth (pos_u emb) k \<and>
           jpl_cem jpl / (1 + jpl_cem jpl) * vec_nth (pos_v earth) k + 1 / (1 + jpl_cem jpl) * vec_nth (pos_v moon) k
             = vec_nth (pos_v emb) k"
proof -
  from assms(1) have e: "body_work jpl z t JPL_EMB junk = Inr emb" by (simp add: help_emb_def)
  from assms(2) e obtain lun where l: "body_work jpl z t JPL_LUN junk = Inr lun"
    by (auto simp: help_ear_def split: sum.splits)
  obtain e0 e1 e2 where eu: "pos_u emb = (e0, e1, e2)" by (cases "pos_u emb")
  obtain f0 f1 f2 where ev: "pos_v emb = (f0, f1, f2)" by (cases "pos_v emb")
  obtain l0 l1 l2 where lu: "pos_u lun = (l0, l1, l2)" by (cases "pos_u lun")
  obtain m0 m1 m2 where lv: "pos_v lun = (m0, m1, m2)" by (cases "pos_v lun")
  define mu where "mu = jpl_cem jpl"
  have mu: "1 + mu \<noteq> 0" using assms(4) by (simp add: mu_def)
  have key: "mu / (1 + mu) * (a + b * (- 1 / (1 + mu))) + 1 / (1 + mu) * (a + b * (mu / (1 + mu))) = a" for a b :: real
    using mu by (rule weights_sum)
  have ea: "earth = pos\<lparr>pos_u := vecpos_off (pos_u emb) (pos_u lun) (- 1 / (1 + mu)),
                         pos_v := vecpos_off (pos_v emb) (pos_v lun) (- 1 / (1 + mu))\<rparr>"
    using assms(2) e l by (simp add: help_ear_def vecpos_set_def mu_def)
  have mo: "moon = pos'\<lparr>pos_u := vecpos_off (pos_u emb) (pos_u lun) (mu / (1 + mu)),
                         pos_v := vecpos_off (pos_v emb) (pos_v lun) (mu / (1 + mu))\<rparr>"
    using assms(3) e l by (simp add: help_lun_def vecpos_set_def mu_def)
  have sel: "pos_u earth = vecpos_off (pos_u emb) (pos_u lun) (- 1 / (1 + mu))"
            "pos_v earth = vecpos_off (pos_v emb) (pos_v lun) (- 1 / (1 + mu))"
            "pos_u moon = vecpos_off (pos_u emb) (pos_u lun) (mu / (1 + mu))"
            "pos_v moon = vecpos_off (pos_v emb) (pos_v lun) (mu / (1 + mu))"
    by (simp_all add: ea mo)
  show ?thesis
    unfolding all_less_3 mu_def[symmetric]
    by (simp only: sel eu ev lu lv vecpos_off.simps vec_nth_simps3 key simp_thms)
qed

text \<open>In the small ephemeris: \<open>3/4 \<times> 3 + 1/4 \<times> 11 = 5\<close> and \<open>3/4 \<times> 1/2 + 1/4 \<times> 5/2 = 1\<close>.\<close>

theorem earth_moon_round_trip_witness:
  "help_tab test_junk PLAN_EMB test_jpl test_z (1/2) test_junk = Inr \<lparr>pos_u = (5, 0, 0), pos_v = (1, 0, 0), pos_jde = 7\<rparr> \<and>
   help_tab test_junk PLAN_EAR test_jpl test_z (1/2) test_junk = Inr \<lparr>pos_u = (3, 0, 0), pos_v = (1/2, 0, 0), pos_jde = 7\<rparr> \<and>
   help_tab test_junk PLAN_LUN test_jpl test_z (1/2) test_junk = Inr \<lparr>pos_u = (11, 0, 0), pos_v = (5/2, 0, 0), pos_jde = 7\<rparr> \<and>
   1 + jpl_cem test_jpl \<noteq> 0 \<and>
   jpl_cem test_jpl / (1 + jpl_cem test_jpl) * 3 + 1 / (1 + jpl_cem test_jpl) * 11 = (5::real) \<and>
   jpl_cem test_jpl / (1 + jpl_cem test_jpl) * (1/2) + 1 / (1 + jpl_cem test_jpl) * (5/2) = (1::real)"
proof -
  have nz: "1 + jpl_cem test_jpl \<noteq> 0" by (simp add: test_cem)
  from earth_moon_round_trip[OF test_help_emb test_ear test_moon nz]
  have "jpl_cem test_jpl / (1 + jpl_cem test_jpl) * 3 + 1 / (1 + jpl_cem test_jpl) * 11 = (5::real) \<and>
        jpl_cem test_jpl / (1 + jpl_cem test_jpl) * (1/2) + 1 / (1 + jpl_cem test_jpl) * (5/2) = (1::real)"
    unfolding all_less_3 by (simp del: vec_nth.simps add: vec_nth_simps3)
  with test_help_emb test_ear test_moon nz show ?thesis by simp
qed

text \<open>
  The claim as it is written lists the weights in the order \<open>1/(1+\<mu>)\<close>, \<open>\<mu>/(1+\<mu>)\<close> for
  Earth and Moon. In the small ephemeris (barycentre at 5 with velocity 1, Earth at 3 with
  velocity 1/2, Moon at 11 with velocity 5/2, \<open>\<mu> = 3\<close>) that pairing gives the position
  \<open>1/4 \<times> 3 + 3/4 \<times> 11 = 9\<close>, not 5, and the velocity \<open>1/4 \<times> 1/2 + 3/4 \<times> 5/2 = 2\<close>,
  not 1.
\<close>

theorem earth_moon_round_trip_counterexample:
  "help_tab test_junk PLAN_EMB test_jpl test_z (1/2) test_junk = Inr \<lparr>pos_u = (5, 0, 0), pos_v = (1, 0, 0), pos_jde = 7\<rparr> \<and>
   help_tab test_junk PLAN_EAR test_jpl test_z (1/2) test_junk = Inr \<lparr>pos_u = (3, 0, 0), pos_v = (1/2, 0, 0), pos_jde = 7\<rparr> \<and>
   help_tab test_junk PLAN_LUN test_jpl test_z (1/2) test_junk = Inr \<lparr>pos_u = (11, 0, 0), pos_v = (5/2, 0, 0), pos_jde = 7\<rparr> \<and>
   1 / (1 + jpl_cem test_jpl) * 3 + jpl_cem test_jpl / (1 + jpl_cem test_jpl) * 11 = (9::real) \<and>
   1 / (1 + jpl_cem test_jpl) * 3 + jpl_cem test_jpl / (1 + jpl_cem test_jpl) * 11 \<noteq> (5::real) \<and>
   1 / (1 + jpl_cem test_jpl) * (1/2) + jpl_cem test_jpl / (1 + jpl_cem test_jpl) * (5/2) = (2::real) \<and>
   1 / (1 + jpl_cem test_jpl) * (1/2) + jpl_cem test_jpl / (1 + jpl_cem test_jpl) * (5/2) \<noteq> (1::real)"
  using test_help_emb test_ear test_moon by (simp add: test_cem)


subsection \<open>The lookup\<close>

lemma unat_blk:
  assumes "0 \<le> b" and "b + 2 < 2 ^ 32"
  shows "int (unat ((word_of_int b :: 32 word) + 2)) = b + 2"
proof -
  have "uint ((word_of_int b :: 32 word) + 2) = (b + 2) mod 2 ^ 32"
    by (simp add: uint_word_ariths uint_word_of_int mod_add_left_eq)
  moreover have "(b + 2) mod 2 ^ 32 = b + 2" using assms by simp
  ultimately show ?thesis by (simp only: of_nat_unat)
qed

lemma fmod_frac:
  assumes "0 \<le> a" and "0 < b"
  shows "fmod a b / b = a / b - of_int \<lfloor>a / b\<rfloor>"
proof -
  have "0 \<le> a / b" using assms by simp
  then have "trunc_int (a / b) = \<lfloor>a / b\<rfloor>" by (simp add: trunc_int_def)
  then show ?thesis using assms by (simp add: fmod_def field_simps)
qed

lemma jpl_calc_in_range:
  assumes "jpl_beg pl \<le> jde" and "jde \<le> jpl_end pl" and "header_ok pl" and "jpl_map pl = Some mem"
  shows "jpl_calc (Some pl) now jde n m junk =
           jpl_calc_at pl now jde n m junk
             (\<lambda>k. mem ((\<lfloor>(jde - jpl_beg pl) / jpl_inc pl\<rfloor> + 2) * int (jpl_rec pl) + 8 * k))
             (fmod (jde - jpl_beg pl) (jpl_inc pl) / jpl_inc pl)"
proof -
  define q where "q = (jde - jpl_beg pl) / jpl_inc pl"
  have inc: "0 < jpl_inc pl" and bound: "(jpl_end pl - jpl_beg pl) / jpl_inc pl + 2 < 2 ^ 32"
    using assms(3) by (simp_all add: header_ok_def)
  have q0: "0 \<le> q" using assms(1) inc by (simp add: q_def)
  have "q \<le> (jpl_end pl - jpl_beg pl) / jpl_inc pl"
    using assms(2) inc by (simp add: q_def divide_right_mono)
  with bound have "q + 2 < 2 ^ 32" by simp
  moreover have "of_int \<lfloor>q\<rfloor> \<le> q" by simp
  ultimately have "(of_int (\<lfloor>q\<rfloor> + 2) :: real) < of_int (2 ^ 32)" by simp
  then have fb: "\<lfloor>q\<rfloor> + 2 < 2 ^ 32" by (simp only: of_int_less_iff)
  have f0: "0 \<le> \<lfloor>q\<rfloor>" using q0 by simp
  have tr: "trunc_int q = \<lfloor>q\<rfloor>" using q0 by (simp add: trunc_int_def)
  have d: "div_to_u32 (jde - jpl_beg pl) (jpl_inc pl) = Some (word_of_int \<lfloor>q\<rfloor>)"
    using inc f0 fb by (simp add: div_to_u32_def tr q_def[symmetric])
  have u: "int (unat ((word_of_int \<lfloor>q\<rfloor> :: 32 word) + 2) * jpl_rec pl) = (\<lfloor>q\<rfloor> + 2) * int (jpl_rec pl)"
    using unat_blk[OF f0 fb] by (simp only: of_nat_mult)
  show ?thesis
    using assms(1,2,4) by (simp add: jpl_calc_def d u q_def[symmetric] not_less[symmetric] del: of_nat_mult)
qed

text \<open>
  Claim C8. For an epoch strictly outside \<open>[begin, end]\<close> and every pair of body codes,
  \<^verbatim>\<open>jpl_calc\<close> returns \<open>-1\<close> and leaves \<^verbatim>\<open>*now\<close> as it was. For an epoch inside the range
  (of a well-formed header, with the file mapped) the record number is
  \<open>\<lfloor>(epoch - begin) / step\<rfloor>\<close>, the fractional time is \<^verbatim>\<open>fmod(epoch - begin, step) / step\<close>
  (the fractional part of the quotient, in \<open>[0, 1)\<close>), and the helpers read the block
  at byte offset (record number + 2) \<open>\<times>\<close> record length of the mapping.
\<close>

theorem jpl_calc_lookup:
  "(jde < jpl_beg pl \<or> jpl_end pl < jde \<longrightarrow> jpl_calc (Some pl) now jde n m junk = Inr (- 1, now)) \<and>
   (jpl_beg pl \<le> jde \<and> jde \<le> jpl_end pl \<and> header_ok pl \<and> jpl_map pl = Some mem \<longrightarrow>
      (let blk = \<lfloor>(jde - jpl_beg pl) / jpl_inc pl\<rfloor>;
           t = fmod (jde - jpl_beg pl) (jpl_inc pl) / jpl_inc pl
       in 0 \<le> blk \<and> t = (jde - jpl_beg pl) / jpl_inc pl - of_int blk \<and> 0 \<le> t \<and> t < 1 \<and>
          jpl_calc (Some pl) now jde n m junk =
            jpl_calc_at pl now jde n m junk (\<lambda>k. mem ((blk + 2) * int (jpl_rec pl) + 8 * k)) t))"
proof (intro conjI impI)
  assume "jde < jpl_beg pl \<or> jpl_end pl < jde"
  then show "jpl_calc (Some pl) now jde n m junk = Inr (- 1, now)"
    by (auto simp: jpl_calc_def)
next
  assume a: "jpl_beg pl \<le> jde \<and> jde \<le> jpl_end pl \<and> header_ok pl \<and> jpl_map pl = Some mem"
  then have inc: "0 < jpl_inc pl" by (simp add: header_ok_def)
  define q where "q = (jde - jpl_beg pl) / jpl_inc pl"
  have q0: "0 \<le> q" using a inc by (simp add: q_def)
  have fr: "fmod (jde - jpl_beg pl) (jpl_inc pl) / jpl_inc pl = q - of_int \<lfloor>q\<rfloor>"
    using a inc by (simp add: fmod_frac q_def)
  have t0: "0 \<le> q - of_int \<lfloor>q\<rfloor>" by simp
  have t1: "q - of_int \<lfloor>q\<rfloor> < 1" by linarith
  have c: "jpl_calc (Some pl) now jde n m junk =
           jpl_calc_at pl now jde n m junk
             (\<lambda>k. mem ((\<lfloor>q\<rfloor> + 2) * int (jpl_rec pl) + 8 * k)) (q - of_int \<lfloor>q\<rfloor>)"
    using a jpl_calc_in_range[of pl jde mem now n m junk] by (simp add: fr q_def[symmetric])
  show "let blk = \<lfloor>(jde - jpl_beg pl) / jpl_inc pl\<rfloor>;
           t = fmod (jde - jpl_beg pl) (jpl_inc pl) / jpl_inc pl
       in 0 \<le> blk \<and> t = (jde - jpl_beg pl) / jpl_inc pl - of_int blk \<and> 0 \<le> t \<and> t < 1 \<and>
          jpl_calc (Some pl) now jde n m junk =
            jpl_calc_at pl now jde n m junk (\<lambda>k. mem ((blk + 2) * int (jpl_rec pl) + 8 * k)) t"
    unfolding Let_def q_def[symmetric] fr using q0 t0 t1 c by simp
qed

lemma test_header_ok: "header_ok test_jpl"
  by (simp add: header_ok_def test_jpl_def)

lemma test_fields:
  "jpl_beg test_jpl = 0" "jpl_end test_jpl = 10" "jpl_inc test_jpl = 1" "jpl_cau test_jpl = 2"
  "jpl_rec test_jpl = 736" "jpl_map test_jpl = Some test_mem"
  by (simp_all add: test_jpl_def)

lemma test_z_eq: "(\<lambda>k. test_mem (1472 + 8 * k)) = test_z"
  by (simp add: test_z_def fun_eq_iff)

lemma test_sun:
  "help_tab test_junk PLAN_SOL test_jpl test_z (1/2) test_junk = Inr \<lparr>pos_u = (5, 0, 0), pos_v = (1, 0, 0), pos_jde = 7\<rparr>"
  by (simp add: help_sun_def body_work_test test_off_def test_z_def test_mem_def test_junk_def)

lemma test_bar:
  "help_tab test_junk PLAN_BAR test_jpl test_z (1/2) test_junk = Inr \<lparr>pos_u = (0, 0, 0), pos_v = (0, 0, 0), pos_jde = 7\<rparr>"
  by (simp add: help_bar_def vecpos_nul_def test_junk_def)

lemma test_calc_at:
  "jpl_calc_at test_jpl test_junk (1/2) PLAN_SOL PLAN_BAR test_junk test_z (1/2)
     = Inr (0, \<lparr>pos_u = (5, 0, 0), pos_v = (1, 0, 0), pos_jde = 1/2\<rparr>)"
  unfolding jpl_calc_at_def test_sun test_bar by (simp add: test_junk_def)

text \<open>In the small ephemeris: day 11 is outside the range, day 1/2 is in the first record.\<close>

theorem jpl_calc_lookup_witness:
  "((11::real) < jpl_beg test_jpl \<or> jpl_end test_jpl < 11) \<and>
   jpl_calc (Some test_jpl) test_junk 11 PLAN_SOL PLAN_BAR test_junk = Inr (- 1, test_junk) \<and>
   jpl_beg test_jpl \<le> 1/2 \<and> 1/2 \<le> jpl_end test_jpl \<and> header_ok test_jpl \<and> jpl_map test_jpl = Some test_mem \<and>
   jpl_calc (Some test_jpl) test_junk (1/2) PLAN_SOL PLAN_BAR test_junk
     = Inr (0, \<lparr>pos_u = (5, 0, 0), pos_v = (1, 0, 0), pos_jde = 1/2\<rparr>)"
proof -
  have o: "(11::real) < jpl_beg test_jpl \<or> jpl_end test_jpl < 11" by (simp add: test_fields)
  have i: "jpl_beg test_jpl \<le> 1/2 \<and> 1/2 \<le> jpl_end test_jpl \<and> header_ok test_jpl \<and> jpl_map test_jpl = Some test_mem"
    by (simp add: test_fields test_header_ok)
  have fm: "fmod (1/2) 1 = 1/2" by (simp add: fmod_def trunc_int_def)
  from jpl_calc_lookup[where jde = 11 and pl = test_jpl and now = test_junk and n = PLAN_SOL and m = PLAN_BAR and junk = test_junk and mem = test_mem] o
  have a: "jpl_calc (Some test_jpl) test_junk 11 PLAN_SOL PLAN_BAR test_junk = Inr (- 1, test_junk)" by blast
  from jpl_calc_lookup[where jde = "1/2" and pl = test_jpl and now = test_junk and n = PLAN_SOL and m = PLAN_BAR and junk = test_junk and mem = test_mem] i
  have b: "jpl_calc (Some test_jpl) test_junk (1/2) PLAN_SOL PLAN_BAR test_junk
     = Inr (0, \<lparr>pos_u = (5, 0, 0), pos_v = (1, 0, 0), pos_jde = 1/2\<rparr>)"
    by (simp add: test_fields fm test_z_eq test_calc_at Let_def)
  from o i a b show ?thesis by simp
qed

subsection \<open>The queries\<close>

text \<open>
  Claim C10. Once the files are loaded (the initialisation block returns), \<^verbatim>\<open>ephem\<close> with
  a body index outside \<open>0..10\<close> returns without writing any of \<^verbatim>\<open>m, x, y, z, vx, vy, vz\<close>
  and without an error, whereas \<^verbatim>\<open>ast_ephem\<close> with an index outside \<open>0..15\<close> ends the
  process.
\<close>

theorem ephem_index_out_of_range:
  assumes "i < 0 \<or> 10 < i" and "j < 0 \<or> 15 < j" and "ephem_init e st = Inr st'"
  shows "ephem e st G i t out = Inr (st', out) \<and> ast_ephem e st G j t out = Inl ExitFailure"
proof -
  from assms(1) have "ephem_plan i = None" by (auto simp: ephem_plan_def)
  with assms(3) have "ephem e st G i t out = Inr (st', out)" by (simp add: ephem_def)
  moreover from assms(2) have "ast_ephem e st G j t out = Inl ExitFailure" by (auto simp: ast_ephem_def)
  ultimately show ?thesis by simp
qed

lemma test_init: "ephem_init test_env statics0 = Inr statics1"
  by (simp add: ephem_init_def test_env_def statics0_def statics1_def)

text \<open>With the indices 11 and \<open>-1\<close> for \<^verbatim>\<open>ephem\<close>, 16 and \<open>-1\<close> for \<^verbatim>\<open>ast_ephem\<close>.\<close>

theorem ephem_index_out_of_range_witness:
  "((11::int) < 0 \<or> 10 < (11::int)) \<and> ((16::int) < 0 \<or> 15 < (16::int)) \<and>
   ((- 1::int) < 0 \<or> 10 < (- 1::int)) \<and>
   ephem_init test_env statics0 = Inr statics1 \<and>
   ephem test_env statics0 1 11 (1/2) out_uninit = Inr (statics1, out_uninit) \<and>
   ephem test_env statics0 1 (- 1) (1/2) out_uninit = Inr (statics1, out_uninit) \<and>
   ast_ephem test_env statics0 1 16 (1/2) out_uninit = Inl ExitFailure \<and>
   ast_ephem test_env statics0 1 (- 1) (1/2) out_uninit = Inl ExitFailure"
  using ephem_index_out_of_range[where i = 11 and j = 16 and e = test_env and st = statics0
          and st' = statics1 and G = 1 and t = "1/2" and out = out_uninit]
        ephem_index_out_of_range[where i = "- 1" and j = "- 1" and e = test_env and st = statics0
          and st' = statics1 and G = 1 and t = "1/2" and out = out_uninit]
        test_init
  by simp

lemma ephem_plan_range: "ephem_plan i = Some body \<Longrightarrow> 0 \<le> i \<and> i \<le> 10"
  by (auto simp: ephem_plan_def split: if_splits)

lemma M_ephem_nth: "0 \<le> i \<Longrightarrow> i \<le> 10 \<Longrightarrow> map (\<lambda>g. g / G) M_ephem ! nat i = M_ephem ! nat i / G"
  by (rule nth_map) (simp add: M_ephem_def)

text \<open>
  Claim C9, as amended. For every body index \<open>0..10\<close> and every epoch inside the range
  (of a well-formed header, with the files loaded), \<^verbatim>\<open>ephem\<close> returns as mass the
  catalogue value divided by \<open>G\<close>; as position the state of the body minus the state of
  the barycentre, divided by the AU length scale; and as velocity that difference
  divided by (AU length scale / 86400), that is multiplied by the seconds of a day and
  divided by the AU length scale.
\<close>

theorem ephem_query:
  assumes "0 \<le> i" and "i \<le> 10" and "ephem_plan i = Some body"
      and "ephem_init e st = Inr st'" and "ephem_pl st' = Some pl"
      and "jpl_beg pl \<le> t" and "t \<le> jpl_end pl" and "header_ok pl" and "jpl_map pl = Some mem"
      and "help_tab (env_junk e) body pl
             (\<lambda>k. mem ((\<lfloor>(t - jpl_beg pl) / jpl_inc pl\<rfloor> + 2) * int (jpl_rec pl) + 8 * k))
             (fmod (t - jpl_beg pl) (jpl_inc pl) / jpl_inc pl) (env_junk e) = Inr pos"
      and "help_tab (env_junk e) PLAN_BAR pl
             (\<lambda>k. mem ((\<lfloor>(t - jpl_beg pl) / jpl_inc pl\<rfloor> + 2) * int (jpl_rec pl) + 8 * k))
             (fmod (t - jpl_beg pl) (jpl_inc pl) / jpl_inc pl) (env_junk e) = Inr ref"
  shows "ephem e st G i t out =
           Inr (st', \<lparr>out_m = M_ephem ! nat i / G,
                      out_x = (vec_nth (pos_u pos) 0 - vec_nth (pos_u ref) 0) / jpl_cau pl,
                      out_y = (vec_nth (pos_u pos) 1 - vec_nth (pos_u ref) 1) / jpl_cau pl,
                      out_z = (vec_nth (pos_u pos) 2 - vec_nth (pos_u ref) 2) / jpl_cau pl,
                      out_vx = (vec_nth (pos_v pos) 0 - vec_nth (pos_v ref) 0) * 86400 / jpl_cau pl,
                      out_vy = (vec_nth (pos_v pos) 1 - vec_nth (pos_v ref) 1) * 86400 / jpl_cau pl,
                      out_vz = (vec_nth (pos_v pos) 2 - vec_nth (pos_v ref) 2) * 86400 / jpl_cau pl\<rparr>)"
proof -
  obtain a0 a1 a2 where pu: "pos_u pos = (a0, a1, a2)" by (cases "pos_u pos")
  obtain b0 b1 b2 where pv: "pos_v pos = (b0, b1, b2)" by (cases "pos_v pos")
  obtain c0 c1 c2 where ru: "pos_u ref = (c0, c1, c2)" by (cases "pos_u ref")
  obtain d0 d1 d2 where rv: "pos_v ref = (d0, d1, d2)" by (cases "pos_v ref")
  have calc: "jpl_calc (Some pl) (env_junk e) t body PLAN_BAR (env_junk e) =
          Inr (0, (env_junk e)\<lparr>pos_u := vec_sub (pos_u pos) (pos_u ref),
                                 pos_v := vec_sub (pos_v pos) (pos_v ref), pos_jde := t\<rparr>)"
    unfolding jpl_calc_in_range[OF assms(6,7,8,9)] jpl_calc_at_def assms(10) assms(11) by simp
  show ?thesis
    unfolding ephem_def Let_def M_ephem_nth[OF assms(1,2)]
    by (simp add: assms(3,4,5) calc pu pv ru rv)
qed

lemma test_ephem_sun:
  "ephem test_env statics0 1 0 (1/2) out_uninit =
     Inr (statics1, \<lparr>out_m = 295912208285591100 / 10 ^ 21, out_x = 5/2, out_y = 0, out_z = 0,
                     out_vx = 43200, out_vy = 0, out_vz = 0\<rparr>)"
proof -
  have fm: "fmod (1/2) 1 = 1/2" by (simp add: fmod_def trunc_int_def)
  have j: "env_junk test_env = test_junk" by (simp add: test_env_def)
  have p: "ephem_pl statics1 = Some test_jpl" by (simp add: statics1_def)
  have c: "jpl_calc (Some test_jpl) test_junk (1/2) PLAN_SOL PLAN_BAR test_junk
     = Inr (0, \<lparr>pos_u = (5, 0, 0), pos_v = (1, 0, 0), pos_jde = 1/2\<rparr>)"
    unfolding jpl_calc_in_range[OF _ _ test_header_ok test_fields(6), of "1/2", simplified test_fields, simplified]
    by (simp add: test_fields fm test_z_eq test_calc_at)
  show ?thesis
    by (simp add: ephem_def test_init ephem_plan_def j p c test_fields M_ephem_def)
qed

text \<open>The Sun of the small ephemeris at day 1/2, with \<open>G = 1\<close>.\<close>

theorem ephem_query_witness:
  "(0::int) \<le> 0 \<and> (0::int) \<le> 10 \<and> ephem_plan 0 = Some PLAN_SOL \<and>
   ephem_init test_env statics0 = Inr statics1 \<and> ephem_pl statics1 = Some test_jpl \<and>
   jpl_beg test_jpl \<le> 1/2 \<and> 1/2 \<le> jpl_end test_jpl \<and> header_ok test_jpl \<and>
   jpl_map test_jpl = Some test_mem \<and>
   help_tab test_junk PLAN_SOL test_jpl test_z (1/2) test_junk = Inr \<lparr>pos_u = (5, 0, 0), pos_v = (1, 0, 0), pos_jde = 7\<rparr> \<and>
   help_tab test_junk PLAN_BAR test_jpl test_z (1/2) test_junk = Inr \<lparr>pos_u = (0, 0, 0), pos_v = (0, 0, 0), pos_jde = 7\<rparr> \<and>
   ephem test_env statics0 1 0 (1/2) out_uninit =
     Inr (statics1, \<lparr>out_m = M_ephem ! 0, out_x = 5/2, out_y = 0, out_z = 0,
                     out_vx = 43200, out_vy = 0, out_vz = 0\<rparr>)"
proof -
  have fm: "fmod (1/2) 1 = 1/2" by (simp add: fmod_def trunc_int_def)
  have j: "env_junk test_env = test_junk" by (simp add: test_env_def)
  have p: "ephem_pl statics1 = Some test_jpl" by (simp add: statics1_def)
  have pl: "ephem_plan 0 = Some PLAN_SOL" by (simp add: ephem_plan_def)
  have r: "jpl_beg test_jpl \<le> 1/2" "1/2 \<le> jpl_end test_jpl" by (simp_all add: test_fields)
  have z: "(\<lambda>k. test_mem ((\<lfloor>(1/2 - jpl_beg test_jpl) / jpl_inc test_jpl\<rfloor> + 2) * int (jpl_rec test_jpl) + 8 * k)) = test_z"
    by (simp add: test_fields test_z_def fun_eq_iff)
  have tt: "fmod (1/2 - jpl_beg test_jpl) (jpl_inc test_jpl) / jpl_inc test_jpl = 1/2"
    by (simp add: test_fields fm)
  have s: "help_tab (env_junk test_env) PLAN_SOL test_jpl
             (\<lambda>k. test_mem ((\<lfloor>(1/2 - jpl_beg test_jpl) / jpl_inc test_jpl\<rfloor> + 2) * int (jpl_rec test_jpl) + 8 * k))
             (fmod (1/2 - jpl_beg test_jpl) (jpl_inc test_jpl) / jpl_inc test_jpl) (env_junk test_env)
           = Inr \<lparr>pos_u = (5, 0, 0), pos_v = (1, 0, 0), pos_jde = 7\<rparr>"
    unfolding z tt j by (rule test_sun)
  have b: "help_tab (env_junk test_env) PLAN_BAR test_jpl
             (\<lambda>k. test_mem ((\<lfloor>(1/2 - jpl_beg test_jpl) / jpl_inc test_jpl\<rfloor> + 2) * int (jpl_rec test_jpl) + 8 * k))
             (fmod (1/2 - jpl_beg test_jpl) (jpl_inc test_jpl) / jpl_inc test_jpl) (env_junk test_env)
           = Inr \<lparr>pos_u = (0, 0, 0), pos_v = (0, 0, 0), pos_jde = 7\<rparr>"
    unfolding z tt j by (rule test_bar)
  have "ephem test_env statics0 1 0 (1/2) out_uninit =
     Inr (statics1, \<lparr>out_m = M_ephem ! 0, out_x = 5/2, out_y = 0, out_z = 0,
                     out_vx = 43200, out_vy = 0, out_vz = 0\<rparr>)"
    using ephem_query[OF _ _ pl test_init p r test_header_ok test_fields(6) s b, of 1 out_uninit]
    by (simp add: test_fields)
  with pl test_init p r test_header_ok test_fields(6) test_sun test_bar show ?thesis by simp
qed

text \<open>
  The claim as it is written, the velocity divided by the seconds of a day, fails there:
  the Sun has the velocity 1 and the barycentre 0, the AU length scale is 2, the
  specification's conversion gives \<open>1/172800\<close> (and \<open>1/86400\<close> without the AU length
  scale) and \<^verbatim>\<open>ephem\<close> returns 43200.
\<close>

theorem ephem_velocity_counterexample:
  "ephem test_env statics0 1 0 (1/2) out_uninit =
     Inr (statics1, \<lparr>out_m = 295912208285591100 / 10 ^ 21, out_x = 5/2, out_y = 0, out_z = 0,
                     out_vx = 43200, out_vy = 0, out_vz = 0\<rparr>) \<and>
   help_tab test_junk PLAN_SOL test_jpl test_z (1/2) test_junk = Inr \<lparr>pos_u = (5, 0, 0), pos_v = (1, 0, 0), pos_jde = 7\<rparr> \<and>
   help_tab test_junk PLAN_BAR test_jpl test_z (1/2) test_junk = Inr \<lparr>pos_u = (0, 0, 0), pos_v = (0, 0, 0), pos_jde = 7\<rparr> \<and>
   spec_velocity 1 0 (jpl_cau test_jpl) = 1 / 172800 \<and>
   43200 \<noteq> spec_velocity 1 0 (jpl_cau test_jpl) \<and>
   43200 \<noteq> (1 - 0) / (86400::real)"
  using test_ephem_sun test_sun test_bar by (simp add: spec_velocity_def test_fields)

subsection \<open>The relativistic correction\<close>

lemma gr_iterate_0: "gr_iterate p mu ri C2 s 0 = s"
  by (simp add: gr_iterate_def)

lemma gr_iterate_Suc: "gr_iterate p mu ri C2 s (Suc k) = gr_iterate p mu ri C2 (gr_update p mu ri C2 s) k"
  by (simp add: gr_iterate_def funpow_swap1)

lemma gr_iterate_Suc': "gr_iterate p mu ri C2 s (Suc k) = gr_update p mu ri C2 (gr_iterate p mu ri C2 s k)"
  by (simp add: gr_iterate_def)

lemma gr_stops_0: "gr_stops p mu ri C2 s 0 \<longleftrightarrow> gr_converged (gr_vi s) (gr_update p mu ri C2 s)"
  by (simp add: gr_stops_def gr_iterate_def)

lemma gr_stops_Suc: "gr_stops p mu ri C2 s (Suc k) \<longleftrightarrow> gr_stops p mu ri C2 (gr_update p mu ri C2 s) k"
  unfolding gr_stops_def by (simp only: gr_iterate_Suc)

lemma gr_loop_char:
  "q \<le> n \<Longrightarrow>
   (let r = gr_loop p mu ri C2 n q s; q' = fst r; k = q' - q
    in q \<le> q' \<and> q' \<le> n \<and> (\<forall>j<k. \<not> gr_stops p mu ri C2 s j) \<and>
       (q' < n \<longrightarrow> gr_stops p mu ri C2 s k \<and> snd r = gr_iterate p mu ri C2 s (Suc k)) \<and>
       (q' = n \<longrightarrow> snd r = gr_iterate p mu ri C2 s k))"
proof (induction p mu ri C2 n q s rule: gr_loop.induct)
  case (1 p mu ri C2 n q s)
  show ?case
  proof (cases "q < n")
    case False
    with 1(2) have "q = n" by simp
    then show ?thesis by (simp add: gr_loop.simps[of p mu ri C2 n n s] gr_iterate_0)
  next
    case True
    show ?thesis
    proof (cases "gr_converged (gr_vi s) (gr_update p mu ri C2 s)")
      case c: True
      then have "gr_loop p mu ri C2 n q s = (q, gr_update p mu ri C2 s)"
        using True by (simp add: gr_loop.simps[of p mu ri C2 n q s])
      with True c show ?thesis by (simp add: gr_stops_0 gr_iterate_Suc gr_iterate_0)
    next
      case c: False
      let ?s = "gr_update p mu ri C2 s"
      let ?r = "gr_loop p mu ri C2 n (Suc q) ?s"
      have eq: "gr_loop p mu ri C2 n q s = ?r"
        using True c by (simp add: gr_loop.simps[of p mu ri C2 n q s])
      from True have "Suc q \<le> n" by simp
      from 1(1)[OF True c this]
      have ih: "Suc q \<le> fst ?r" "fst ?r \<le> n"
          "\<forall>j<fst ?r - Suc q. \<not> gr_stops p mu ri C2 ?s j"
          "fst ?r < n \<longrightarrow> gr_stops p mu ri C2 ?s (fst ?r - Suc q) \<and> snd ?r = gr_iterate p mu ri C2 ?s (Suc (fst ?r - Suc q))"
          "fst ?r = n \<longrightarrow> snd ?r = gr_iterate p mu ri C2 ?s (fst ?r - Suc q)"
        by (simp_all add: Let_def)
      have k: "fst ?r - q = Suc (fst ?r - Suc q)" using ih(1) by simp
      have nostop: "\<forall>j<fst ?r - q. \<not> gr_stops p mu ri C2 s j"
      proof (intro allI impI)
        fix j assume j: "j < fst ?r - q"
        show "\<not> gr_stops p mu ri C2 s j"
        proof (cases j)
          case 0
          with c show ?thesis by (simp add: gr_stops_0)
        next
          case (Suc j')
          with j k have "j' < fst ?r - Suc q" by simp
          with ih(3) Suc show ?thesis by (simp add: gr_stops_Suc)
        qed
      qed
      show ?thesis
        unfolding Let_def eq k
        using ih nostop k by (simp add: gr_stops_Suc gr_iterate_Suc[of p mu ri C2 s])
    qed
  qed
qed

lemma gr_loop_fix:
  "gr_update p mu ri C2 s = s \<Longrightarrow> \<not> gr_converged (gr_vi s) s \<Longrightarrow> q \<le> n \<Longrightarrow>
   gr_loop p mu ri C2 n q s = (n, s)"
proof (induction "n - q" arbitrary: q)
  case 0
  then have "q = n" by simp
  then show ?case by (simp add: gr_loop.simps[of p mu ri C2 n n s])
next
  case (Suc k)
  then have "q < n" "k = n - Suc q" "Suc q \<le> n" by simp_all
  with Suc.hyps(1)[of "Suc q"] Suc.prems show ?case
    by (simp add: gr_loop.simps[of p mu ri C2 n q s])
qed

lemma gr_loop_stop:
  "gr_converged (gr_vi s) (gr_update p mu ri C2 s) \<Longrightarrow> q < n \<Longrightarrow>
   gr_loop p mu ri C2 n q s = (q, gr_update p mu ri C2 s)"
  by (simp add: gr_loop.simps[of p mu ri C2 n q s])

lemma gr_update_vi2: "gr_vi2 (gr_update p mu ri C2 s) = norm2 (gr_vi (gr_update p mu ri C2 s))"
  by (simp add: gr_update_def Let_def)

lemma gr_converged_norm:
  "gr_converged old s \<longleftrightarrow> gr_vi2 s \<noteq> 0 \<and> norm2 (vec_sub (gr_vi s) old) / gr_vi2 s < DBL_EPSILON * DBL_EPSILON"
  by (cases "gr_vi s"; cases old) (simp add: gr_converged_def Let_def)

text \<open>
  Claim C6. For each particle the loop makes at most 10 passes of the update
  \<open>v = v_particle / (1 - A)\<close>, \<open>A = (|v|\<^sup>2/2 + 3 \<mu>/r) / c\<^sup>2\<close>. With \<open>q\<close> the value of the
  counter after the loop: no pass before pass \<open>q + 1\<close> met the test
  \<open>|v - old_v|\<^sup>2 / |v|\<^sup>2 < \<epsilon>\<^sup>2\<close> (\<open>\<epsilon>\<close> the machine epsilon \<open>1 / 2 ^ 52\<close>); if \<open>q < 10\<close>,
  pass \<open>q + 1\<close> met it and the correction is computed from iterate \<open>q + 1\<close>; if \<open>q = 10\<close>,
  no pass met it, the correction is computed from iterate 10, the last one, and the
  warning is given; the warning is given in that case only, and the particle's
  acceleration is increased by the correction in both.
\<close>

theorem gr_iteration:
  "let ri = gr_ri p; s0 = gr_init mu C2 p; q = snd (gr_correction mu C2 p)
   in q \<le> 10 \<and> (\<forall>k<q. \<not> gr_stops p mu ri C2 s0 k) \<and>
      (q < 10 \<longrightarrow> gr_stops p mu ri C2 s0 q \<and>
                  fst (gr_correction mu C2 p) = gr_term mu C2 p (gr_iterate p mu ri C2 s0 (Suc q))) \<and>
      (q = 10 \<longrightarrow> fst (gr_correction mu C2 p) = gr_term mu C2 p (gr_iterate p mu ri C2 s0 10)) \<and>
      (snd (gr_particle mu C2 p) \<longleftrightarrow> q = 10) \<and>
      fst (gr_particle mu C2 p) =
        p\<lparr>p_ax := p_ax p + vec_nth (fst (gr_correction mu C2 p)) 0,
          p_ay := p_ay p + vec_nth (fst (gr_correction mu C2 p)) 1,
          p_az := p_az p + vec_nth (fst (gr_correction mu C2 p)) 2\<rparr> \<and>
      (\<forall>s. gr_vi (gr_update p mu ri C2 s) = (p_vx p / (1 - gr_A s), p_vy p / (1 - gr_A s), p_vz p / (1 - gr_A s)) \<and>
           gr_A (gr_update p mu ri C2 s) = div_by (1 / 2 * norm2 (gr_vi (gr_update p mu ri C2 s)) + 3 * mu / ri) C2) \<and>
      (\<forall>k. gr_stops p mu ri C2 s0 k \<longleftrightarrow>
             norm2 (gr_vi (gr_iterate p mu ri C2 s0 (Suc k))) \<noteq> 0 \<and>
             norm2 (vec_sub (gr_vi (gr_iterate p mu ri C2 s0 (Suc k))) (gr_vi (gr_iterate p mu ri C2 s0 k)))
               / norm2 (gr_vi (gr_iterate p mu ri C2 s0 (Suc k))) < DBL_EPSILON * DBL_EPSILON)"
proof -
  define ri where "ri = gr_ri p"
  define s0 where "s0 = gr_init mu C2 p"
  define r where "r = gr_loop p mu ri C2 10 0 s0"
  have corr: "gr_correction mu C2 p = (gr_term mu C2 p (snd r), fst r)"
    by (simp add: gr_correction_def Let_def r_def ri_def s0_def max_iterations_def)
  from gr_loop_char[of 0 10 p mu ri C2 s0]
  have ch: "fst r \<le> 10" "\<forall>j<fst r. \<not> gr_stops p mu ri C2 s0 j"
           "fst r < 10 \<longrightarrow> gr_stops p mu ri C2 s0 (fst r) \<and> snd r = gr_iterate p mu ri C2 s0 (Suc (fst r))"
           "fst r = 10 \<longrightarrow> snd r = gr_iterate p mu ri C2 s0 (fst r)"
    by (simp_all add: Let_def r_def)
  have upd: "\<forall>s. gr_vi (gr_update p mu ri C2 s) = (p_vx p / (1 - gr_A s), p_vy p / (1 - gr_A s), p_vz p / (1 - gr_A s)) \<and>
           gr_A (gr_update p mu ri C2 s) = div_by (1 / 2 * norm2 (gr_vi (gr_update p mu ri C2 s)) + 3 * mu / ri) C2"
    by (simp add: gr_update_def Let_def)
  have st: "\<forall>k. gr_stops p mu ri C2 s0 k \<longleftrightarrow>
             norm2 (gr_vi (gr_iterate p mu ri C2 s0 (Suc k))) \<noteq> 0 \<and>
             norm2 (vec_sub (gr_vi (gr_iterate p mu ri C2 s0 (Suc k))) (gr_vi (gr_iterate p mu ri C2 s0 k)))
               / norm2 (gr_vi (gr_iterate p mu ri C2 s0 (Suc k))) < DBL_EPSILON * DBL_EPSILON"
    unfolding gr_stops_def gr_converged_norm
    by (simp only: gr_iterate_Suc' gr_update_vi2) simp
  have part: "gr_particle mu C2 p =
        (p\<lparr>p_ax := p_ax p + vec_nth (fst (gr_correction mu C2 p)) 0,
           p_ay := p_ay p + vec_nth (fst (gr_correction mu C2 p)) 1,
           p_az := p_az p + vec_nth (fst (gr_correction mu C2 p)) 2\<rparr>, fst r = 10)"
    by (simp add: gr_particle_def Let_def corr default_max_iterations_def)
  show ?thesis
    unfolding Let_def ri_def[symmetric] s0_def[symmetric]
    apply (intro conjI)
    subgoal using ch(1) by (simp add: corr)
    subgoal using ch(2) by (simp add: corr)
    subgoal using ch(3) by (simp add: corr)
    subgoal using ch(4) by (simp add: corr)
    subgoal by (simp add: part corr)
    subgoal by (simp add: part)
    subgoal by (rule upd)
    subgoal by (rule st)
    done
qed

lemma gr_init_inf:
  "gr_init mu PlusInfinity p = \<lparr>gr_vi = (p_vx p, p_vy p, p_vz p), gr_vi2 = norm2 (p_vx p, p_vy p, p_vz p), gr_A = 0\<rparr>"
  by (simp add: gr_init_def Let_def)

lemma gr_update_inf:
  "gr_update p mu ri PlusInfinity (gr_init mu PlusInfinity p) = gr_init mu PlusInfinity p"
  by (simp add: gr_init_inf gr_update_def Let_def)

lemma gr_loop_inf:
  "gr_loop p mu ri PlusInfinity 10 0 (gr_init mu PlusInfinity p) =
     (if norm2 (p_vx p, p_vy p, p_vz p) = 0 then 10 else 0, gr_init mu PlusInfinity p)"
proof (cases "norm2 (p_vx p, p_vy p, p_vz p) = 0")
  case True
  then have "\<not> gr_converged (gr_vi (gr_init mu PlusInfinity p)) (gr_init mu PlusInfinity p)"
    by (simp add: gr_converged_norm gr_init_inf)
  from gr_loop_fix[OF gr_update_inf this, of 0 10 ri] True show ?thesis by simp
next
  case False
  then have "gr_converged (gr_vi (gr_init mu PlusInfinity p)) (gr_update p mu ri PlusInfinity (gr_init mu PlusInfinity p))"
    unfolding gr_update_inf by (simp add: gr_converged_norm gr_init_inf DBL_EPSILON_def)
  from gr_loop_stop[OF this, of 0 10] False show ?thesis by (simp add: gr_update_inf)
qed

lemma gr_term_inf: "gr_term mu PlusInfinity p (gr_init mu PlusInfinity p) = (0, 0, 0)"
  by (simp add: gr_term_def gr_init_inf Let_def)

lemma gr_correction_inf:
  "gr_correction mu PlusInfinity p = ((0, 0, 0), if norm2 (p_vx p, p_vy p, p_vz p) = 0 then 10 else 0)"
  by (simp add: gr_correction_def Let_def max_iterations_def gr_loop_inf gr_term_inf)

lemma gr_particle_inf:
  "gr_particle mu PlusInfinity p = (p, norm2 (p_vx p, p_vy p, p_vz p) = 0)"
  by (simp add: gr_particle_def Let_def gr_correction_inf default_max_iterations_def)

lemma gr_init_move:
  "gr_init 1 (c_square c_test) p_move = \<lparr>gr_vi = (1, 0, 0), gr_vi2 = 1, gr_A = 7 / 2 ^ 61\<rparr>"
  by (simp add: gr_init_def c_test_def p_move_def gr_ri_def Let_def)

lemma gr_conv_move:
  "gr_converged (gr_vi (gr_init 1 (c_square c_test) p_move))
     (gr_update p_move 1 (gr_ri p_move) (c_square c_test) (gr_init 1 (c_square c_test) p_move))"
  unfolding gr_init_move
  by (simp add: gr_converged_def gr_update_def Let_def p_move_def DBL_EPSILON_def)

lemma gr_q_move: "snd (gr_correction 1 (c_square c_test) p_move) = 0"
  using gr_loop_stop[OF gr_conv_move, of 0 max_iterations]
  by (simp add: gr_correction_def Let_def max_iterations_def)

text \<open>
  With \<open>c = +\<infinity>\<close>: the particle at rest makes 10 passes and is warned about; the moving
  one stops after the first pass, as it does with \<open>c = 2 ^ 30\<close>, where the first pass
  changes the velocity by the factor \<open>1 / (1 - 7 / 2 ^ 61)\<close>.
\<close>

theorem gr_iteration_witness:
  "snd (gr_correction 1 PlusInfinity p_rest) = 10 \<and> snd (gr_particle 1 PlusInfinity p_rest) \<and>
   \<not> gr_stops p_rest 1 (gr_ri p_rest) PlusInfinity (gr_init 1 PlusInfinity p_rest) 0 \<and>
   \<not> gr_stops p_rest 1 (gr_ri p_rest) PlusInfinity (gr_init 1 PlusInfinity p_rest) 9 \<and>
   snd (gr_correction 1 PlusInfinity p_move) = 0 \<and> \<not> snd (gr_particle 1 PlusInfinity p_move) \<and>
   gr_stops p_move 1 (gr_ri p_move) PlusInfinity (gr_init 1 PlusInfinity p_move) 0 \<and>
   snd (gr_correction 1 (c_square c_test) p_move) = 0 \<and> \<not> snd (gr_particle 1 (c_square c_test) p_move) \<and>
   gr_stops p_move 1 (gr_ri p_move) (c_square c_test) (gr_init 1 (c_square c_test) p_move) 0"
proof -
  have r: "snd (gr_correction 1 PlusInfinity p_rest) = 10"
    by (simp add: gr_correction_inf p_rest_def)
  have m: "snd (gr_correction 1 PlusInfinity p_move) = 0"
    by (simp add: gr_correction_inf p_move_def)
  note tr = gr_iteration[of p_rest 1 PlusInfinity, unfolded Let_def r]
  note tm = gr_iteration[of p_move 1 PlusInfinity, unfolded Let_def m]
  note tf = gr_iteration[of p_move 1 "c_square c_test", unfolded Let_def gr_q_move]
  have a0: "\<forall>k<10. \<not> gr_stops p_rest 1 (gr_ri p_rest) PlusInfinity (gr_init 1 PlusInfinity p_rest) k"
    by (rule tr[THEN conjunct2, THEN conjunct1])
  have a1: "\<not> gr_stops p_rest 1 (gr_ri p_rest) PlusInfinity (gr_init 1 PlusInfinity p_rest) 0 \<and>
            \<not> gr_stops p_rest 1 (gr_ri p_rest) PlusInfinity (gr_init 1 PlusInfinity p_rest) 9"
    using a0 by simp
  have a2: "snd (gr_particle 1 PlusInfinity p_rest)"
    using tr[THEN conjunct2, THEN conjunct2, THEN conjunct2, THEN conjunct2, THEN conjunct1] by simp
  have b1: "gr_stops p_move 1 (gr_ri p_move) PlusInfinity (gr_init 1 PlusInfinity p_move) 0"
    using tm[THEN conjunct2, THEN conjunct2, THEN conjunct1] by simp
  have b2: "\<not> snd (gr_particle 1 PlusInfinity p_move)"
    using tm[THEN conjunct2, THEN conjunct2, THEN conjunct2, THEN conjunct2, THEN conjunct1] by simp
  have c1: "gr_stops p_move 1 (gr_ri p_move) (c_square c_test) (gr_init 1 (c_square c_test) p_move) 0"
    using tf[THEN conjunct2, THEN conjunct2, THEN conjunct1] by simp
  have c2: "\<not> snd (gr_particle 1 (c_square c_test) p_move)"
    using tf[THEN conjunct2, THEN conjunct2, THEN conjunct2, THEN conjunct2, THEN conjunct1] by simp
  from r m a1 a2 b1 b2 gr_q_move c1 c2 show ?thesis by simp
qed

lemma gr_ri_move: "gr_ri p_move = 1"
  by (simp add: gr_ri_def p_move_def)

text \<open>
  Claim C7. With \<open>c = +\<infinity>\<close>, so that every quantity divided by \<open>c\<^sup>2\<close> is 0, the vector
  \<open>B (1 - A) r - A a - D v\<close> that is added to the acceleration is the zero vector and the
  particle is left as it was, for every particle that is not at the barycentre itself
  (where \<open>3 \<mu>/r\<close> is not finite).
\<close>

theorem gr_infinite_c:
  assumes "gr_ri p \<noteq> 0"
  shows "fst (gr_correction mu (c_square PlusInfinity) p) = (0, 0, 0) \<and>
         fst (gr_particle mu (c_square PlusInfinity) p) = p"
proof -
  have c: "c_square PlusInfinity = PlusInfinity" by simp
  have "gr_correction mu PlusInfinity p =
          ((0, 0, 0), if norm2 (p_vx p, p_vy p, p_vz p) = 0 then 10 else 0)"
    by (rule gr_correction_inf)
  then have t: "fst (gr_correction mu PlusInfinity p) = (0, 0, 0)" by simp
  have "gr_particle mu PlusInfinity p = (p, norm2 (p_vx p, p_vy p, p_vz p) = 0)"
    by (rule gr_particle_inf)
  then have u: "fst (gr_particle mu PlusInfinity p) = p" by simp
  from t u show ?thesis unfolding c by simp
qed

text \<open>The moving particle, at distance 1.\<close>

theorem gr_infinite_c_witness:
  "gr_ri p_move \<noteq> 0 \<and> fst (gr_correction 1 (c_square PlusInfinity) p_move) = (0, 0, 0) \<and>
   fst (gr_particle 1 (c_square PlusInfinity) p_move) = p_move"
  using gr_infinite_c[of p_move 1] by (simp add: gr_ri_move)

subsection \<open>The force routine\<close>













lemma test0_fields:
  "jpl_beg test_jpl0 = 0" "jpl_end test_jpl0 = 10" "jpl_inc test_jpl0 = 1" "jpl_cau test_jpl0 = 2"
  "jpl_rec test_jpl0 = 736" "jpl_map test_jpl0 = Some zero_mem" "jpl_cem test_jpl0 = 3"
  by (simp_all add: test_jpl0_def test_jpl_def)

lemma test0_header_ok: "header_ok test_jpl0"
  by (simp add: header_ok_def test0_fields)


lemma body_work_test0:
  "body_work test_jpl0 (\<lambda>k. 0) (1/2) B pos = Inr (pos\<lparr>pos_u := (0, 0, 0), pos_v := (0, 0, 0)\<rparr>)"
  by (cases "pos_u pos"; cases "pos_v pos")
     (simp add: body_work_def test_jpl0_def test_jpl_def jpl_work_test)

lemma help_tab_test0:
  "help_tab test_junk body test_jpl0 (\<lambda>k. 0) (1/2) test_junk
     = Inr \<lparr>pos_u = (0, 0, 0), pos_v = (0, 0, 0), pos_jde = 7\<rparr>"
  by (cases body)
     (simp_all add: help_bar_def help_sun_def help_emb_def help_mer_def help_ven_def help_mar_def
        help_jup_def help_sat_def help_ura_def help_nep_def help_plu_def help_ear_def help_lun_def
        body_work_test0 vecpos_nul_def vecpos_set_def test_junk_def)

lemma jpl_calc_test0:
  "jpl_calc (Some test_jpl0) test_junk (1/2) body PLAN_BAR test_junk
     = Inr (0, \<lparr>pos_u = (0, 0, 0), pos_v = (0, 0, 0), pos_jde = 1/2\<rparr>)"
proof -
  have fm: "fmod (1/2) 1 = 1/2" by (simp add: fmod_def trunc_int_def)
  have z: "(\<lambda>k. zero_mem (1472 + 8 * k)) = (\<lambda>k. 0)" by (simp add: zero_mem_def)
  have r: "jpl_beg test_jpl0 \<le> 1/2" "1/2 \<le> jpl_end test_jpl0" by (simp_all add: test0_fields)
  have at: "jpl_calc_at test_jpl0 test_junk (1/2) body PLAN_BAR test_junk (\<lambda>k. 0) (1/2)
     = Inr (0, \<lparr>pos_u = (0, 0, 0), pos_v = (0, 0, 0), pos_jde = 1/2\<rparr>)"
    unfolding jpl_calc_at_def help_tab_test0 by (simp add: test_junk_def)
  show ?thesis
    unfolding jpl_calc_in_range[OF r test0_header_ok test0_fields(6)]
    by (simp add: test0_fields fm z at)
qed

lemma ephem_test0:
  assumes "ephem_plan i = Some body" and "ephem_init test_env0 st = Inr statics2"
  shows "ephem test_env0 st G i (1/2) out = Inr (statics2, body_at_origin (M_ephem ! nat i / G))"
proof -
  have j: "env_junk test_env0 = test_junk" by (simp add: test_env0_def)
  have p: "ephem_pl statics2 = Some test_jpl0" by (simp add: statics2_def)
  from ephem_plan_range[OF assms(1)] have m: "map (\<lambda>g. g / G) M_ephem ! nat i = M_ephem ! nat i / G"
    by (simp add: M_ephem_nth)
  show ?thesis
    unfolding ephem_def Let_def m
    by (simp add: assms j p jpl_calc_test0 test0_fields body_at_origin_def)
qed

lemma init_test0: "ephem_init test_env0 statics0 = Inr statics2"
  by (simp add: ephem_init_def test_env0_def statics0_def statics2_def)

lemma init_test2: "ephem_init test_env0 statics2 = Inr statics2"
  by (simp add: ephem_init_def statics2_def)

lemma plan_0_3: "ephem_plan 0 = Some PLAN_SOL" "ephem_plan 3 = Some PLAN_EAR"
  by (simp_all add: ephem_plan_def)

lemma M_ephem_0: "M_ephem ! 0 = GM_sun"
  by (simp add: M_ephem_def GM_sun_def)

lemma attract_origin:
  "attract 1 m 0 0 0 p_rest = p_rest\<lparr>p_ax := - m\<rparr>"
  by (simp add: attract_def p_rest_def Let_def)

lemma major_loop_test0:
  "major_loop test_env0 1 (1/2) [0] (statics2, out, [p_rest])
     = Inr (statics2, body_at_origin GM_sun, [p_rest\<lparr>p_ax := - GM_sun\<rparr>])"
  by (simp add: ephem_test0[OF plan_0_3(1) init_test2] M_ephem_0 body_at_origin_def attract_origin)



lemma no_ast_result:
  "rebx_ephemeris_forces test_env0 statics0 sim_scn params_no_ast [p_rest] = Inl NullDereference"
  unfolding rebx_ephemeris_forces_def Let_def
  by (simp add: params_no_ast_def sim_scn_def ephem_test0[OF plan_0_3(2) init_test0]
        ephem_test0[OF plan_0_3(1) init_test2] major_loop_test0 body_at_origin_def)

lemma missing_N_ephem:
  "param_N_ephem ps = None \<Longrightarrow> rebx_ephemeris_forces e st sim ps particles = Inr (st, particles, [Need_N_ephem])"
  by (simp add: rebx_ephemeris_forces_def)

lemma missing_c:
  "param_N_ephem ps = Some n \<Longrightarrow> param_c ps = None \<Longrightarrow>
   rebx_ephemeris_forces e st sim ps particles = Inr (st, particles, [Need_c])"
  by (simp add: rebx_ephemeris_forces_def)

text \<open>With \<^verbatim>\<open>N_ephem\<close> and \<^verbatim>\<open>c\<close> present and \<^verbatim>\<open>N_ast\<close> missing the routine never returns.\<close>

lemma missing_N_ast:
  assumes "param_N_ephem ps = Some n" and "param_c ps = Some c" and "param_N_ast ps = None"
  shows "\<exists>err. rebx_ephemeris_forces e st sim ps particles = Inl err"
  using assms by (auto simp: rebx_ephemeris_forces_def Let_def split: sum.splits prod.splits)

text \<open>
  Claim C1 fails for the parameter \<^verbatim>\<open>N_ast\<close>. A missing \<^verbatim>\<open>N_ephem\<close> and a missing \<^verbatim>\<open>c\<close> are
  reported and the particles are returned untouched; with \<^verbatim>\<open>N_ephem\<close> and \<^verbatim>\<open>c\<close> present and
  \<^verbatim>\<open>N_ast\<close> missing, the routine dereferences the null pointer, after the loop over the major
  bodies has changed the acceleration of the particle.
\<close>

theorem missing_N_ast_crashes:
  "rebx_ephemeris_forces test_env0 statics0 sim_scn params_no_ephem [p_rest] = Inr (statics0, [p_rest], [Need_N_ephem]) \<and>
   rebx_ephemeris_forces test_env0 statics0 sim_scn params_no_c [p_rest] = Inr (statics0, [p_rest], [Need_c]) \<and>
   param_N_ephem params_no_ast = Some 1 \<and> param_c params_no_ast = Some PlusInfinity \<and>
   param_N_ast params_no_ast = None \<and>
   rebx_ephemeris_forces test_env0 statics0 sim_scn params_no_ast [p_rest] = Inl NullDereference \<and>
   major_loop test_env0 (sim_G sim_scn) (sim_t sim_scn) [0] (statics2, out_uninit, [p_rest])
     = Inr (statics2, body_at_origin GM_sun, [p_rest\<lparr>p_ax := - GM_sun\<rparr>])"
proof -
  have a: "rebx_ephemeris_forces test_env0 statics0 sim_scn params_no_ephem [p_rest] = Inr (statics0, [p_rest], [Need_N_ephem])"
    by (rule missing_N_ephem) (simp add: params_no_ephem_def)
  have b: "rebx_ephemeris_forces test_env0 statics0 sim_scn params_no_c [p_rest] = Inr (statics0, [p_rest], [Need_c])"
    by (rule missing_c[of _ 1]) (simp_all add: params_no_c_def)
  have c: "param_N_ephem params_no_ast = Some 1 \<and> param_c params_no_ast = Some PlusInfinity \<and>
           param_N_ast params_no_ast = None" by (simp add: params_no_ast_def)
  have d: "major_loop test_env0 (sim_G sim_scn) (sim_t sim_scn) [0] (statics2, out_uninit, [p_rest])
     = Inr (statics2, body_at_origin GM_sun, [p_rest\<lparr>p_ax := - GM_sun\<rparr>])"
    unfolding sim_scn_def by (simp only: reb_simulation.simps major_loop_test0)
  from a b c no_ast_result d show ?thesis by simp
qed







end
